theory Spec2Isabelle
  imports
    Complex_Main
    "HOL-Library.Word"
    "HOL-Library.Sublist"
    "HOL-Library.AList"
    "HOL-Library.Product_Lexorder"
    "HOL-Library.Char_ord"
    "HOL-Library.List_Lexorder"
begin

section \<open>The trailer cache of velura: store, catalog, acquisition and streaming\<close>

text \<open>
  The development embeds the on-demand trailer cache of the backend:
  \<^item> \<^verbatim>\<open>streamVideoFile\<close> of the trailer routes (range serving),
  \<^item> \<^verbatim>\<open>StorageManager\<close> of \<^verbatim>\<open>services/storageManager.js\<close>
    (\<^verbatim>\<open>saveVideo\<close>, \<^verbatim>\<open>getVideoInfo\<close>, \<^verbatim>\<open>checkAndCleanup\<close>,
    \<^verbatim>\<open>getStorageStats\<close>, \<^verbatim>\<open>cleanup\<close>),
  \<^item> \<^verbatim>\<open>DownloadService\<close> of \<^verbatim>\<open>services/downloadService.js\<close>
    (\<^verbatim>\<open>acquireLock\<close>, \<^verbatim>\<open>releaseLock\<close>, \<^verbatim>\<open>waitForLock\<close>,
    \<^verbatim>\<open>downloadYouTubeMP4\<close>, \<^verbatim>\<open>downloadAndStore\<close>).

  JavaScript numbers are IEEE doubles. Every number of this code is a file size, a byte
  offset, a counter or a millisecond timestamp, or such a number divided by a power of two;
  below \<open>2^53\<close> doubles compute these exactly, so they are modelled by \<open>nat\<close>, \<open>int\<close> and
  \<open>rat\<close>. \<^verbatim>\<open>NaN\<close> is modelled where the code can produce it (\<^verbatim>\<open>parseInt\<close>).
\<close>

subsection \<open>Strings: the JavaScript string functions the code calls\<close>

text \<open>\<^verbatim>\<open>s.replace(/pat/, rep)\<close> for a literal pattern: the first occurrence only.\<close>

fun replace_first :: "string \<Rightarrow> string \<Rightarrow> string \<Rightarrow> string" where
  "replace_first pat rep [] = (if pat = [] then rep else [])"
| "replace_first pat rep (c # cs) =
     (if prefix pat (c # cs) then rep @ drop (length pat) (c # cs)
      else c # replace_first pat rep cs)"

text \<open>
  \<^verbatim>\<open>s.split(d)\<close> for a one-character separator: the pieces between the separators, in
  order; a string without separator is its only piece (\<^verbatim>\<open>"".split("-")\<close> is \<^verbatim>\<open>[""]\<close>).
  The accumulator holds the current piece, reversed.
\<close>

fun split_acc :: "char \<Rightarrow> string \<Rightarrow> string \<Rightarrow> string list" where
  "split_acc d acc [] = [rev acc]"
| "split_acc d acc (c # cs) =
     (if c = d then rev acc # split_acc d [] cs else split_acc d (c # acc) cs)"

definition split_on :: "char \<Rightarrow> string \<Rightarrow> string list" where
  "split_on d s = split_acc d [] s"

definition is_digit :: "char \<Rightarrow> bool" where
  "is_digit c = (48 \<le> (of_char c :: nat) \<and> (of_char c :: nat) \<le> 57)"

definition digit_val :: "char \<Rightarrow> nat" where
  "digit_val c = of_char c - 48"

definition digit_char :: "nat \<Rightarrow> char" where
  "digit_char d = ''0123456789'' ! d"

text \<open>The white space \<^verbatim>\<open>parseInt\<close> skips, within ASCII: TAB, LF, VT, FF, CR and space.\<close>

definition is_space :: "char \<Rightarrow> bool" where
  "is_space c = (of_char c \<in> {9::nat, 10, 11, 12, 13, 32})"

text \<open>
  A JavaScript number that is an integer or \<^verbatim>\<open>NaN\<close>: \<open>None\<close> is \<^verbatim>\<open>NaN\<close>.
  Arithmetic propagates \<^verbatim>\<open>NaN\<close>.
\<close>

type_synonym jsnum = "int option"

definition js_sub :: "jsnum \<Rightarrow> jsnum \<Rightarrow> jsnum" where
  "js_sub a b = (case (a, b) of (Some x, Some y) \<Rightarrow> Some (x - y) | _ \<Rightarrow> None)"

definition js_add :: "jsnum \<Rightarrow> jsnum \<Rightarrow> jsnum" where
  "js_add a b = (case (a, b) of (Some x, Some y) \<Rightarrow> Some (x + y) | _ \<Rightarrow> None)"

text \<open>
  \<^verbatim>\<open>parseInt(s, 10)\<close>: skip leading white space, read an optional sign, then the longest
  run of decimal digits; what follows is ignored; no digit at all gives \<^verbatim>\<open>NaN\<close>.
\<close>

definition digits_value :: "string \<Rightarrow> nat" where
  "digits_value ds = foldl (\<lambda>a c. 10 * a + digit_val c) 0 ds"

definition parseInt :: "string \<Rightarrow> jsnum" where
  "parseInt s =
     (let s1 = dropWhile is_space s;
          neg = (case s1 of c # _ \<Rightarrow> c = CHR ''-'' | [] \<Rightarrow> False);
          s2 = (case s1 of
                  c # cs \<Rightarrow> if c = CHR ''-'' \<or> c = CHR ''+'' then cs else s1
                | [] \<Rightarrow> []);
          ds = takeWhile is_digit s2
      in if ds = [] then None
         else Some (if neg then - int (digits_value ds) else int (digits_value ds)))"

text \<open>How a template literal and a header value print a number: decimal, \<^verbatim>\<open>NaN\<close> for NaN.\<close>

fun show_nat :: "nat \<Rightarrow> string" where
  "show_nat n =
     (if n < 10 then [digit_char n] else show_nat (n div 10) @ [digit_char (n mod 10)])"

declare show_nat.simps [simp del]

definition show_int :: "int \<Rightarrow> string" where
  "show_int i = (if i < 0 then CHR ''-'' # show_nat (nat (- i)) else show_nat (nat i))"

definition show_num :: "jsnum \<Rightarrow> string" where
  "show_num x = (case x of None \<Rightarrow> ''NaN'' | Some i \<Rightarrow> show_int i)"

subsection \<open>The file system\<close>

text \<open>
  Regular files by path, each with its bytes and its modification time in milliseconds.
  The file system is an association list with one entry per path, so that a directory can
  be listed.
\<close>

type_synonym byte = "8 word"
type_synonym path = string

record stored_file =
  content :: "byte list"
  mtimeMs :: nat

type_synonym filesystem = "(path \<times> stored_file) list"

definition existsSync :: "filesystem \<Rightarrow> path \<Rightarrow> bool" where
  "existsSync fs p = (map_of fs p \<noteq> None)"

subsection \<open>Serving a file: \<^verbatim>\<open>streamVideoFile\<close>\<close>

datatype body = FileStream "byte list" | JsonBody "(string \<times> string) list"

record response =
  status :: nat
  headers :: "(string \<times> string) list"
  body :: body

text \<open>
  \<^verbatim>\<open>fs.createReadStream(path, {start, end})\<close>: both bounds are inclusive byte offsets.
  Node validates them when the stream is created: each must be a non-negative integer, and
  \<^verbatim>\<open>start <= end\<close>; otherwise it throws (\<open>None\<close>). The stream then yields the bytes from
  \<open>start\<close> up to \<open>end\<close> or the end of the file, whichever comes first.
\<close>

definition createReadStream :: "stored_file \<Rightarrow> jsnum \<Rightarrow> jsnum \<Rightarrow> byte list option" where
  "createReadStream f start end =
     (case (start, end) of
        (Some a, Some b) \<Rightarrow>
          if 0 \<le> a \<and> 0 \<le> b \<and> a \<le> b
          then Some (take (nat (b - a + 1)) (drop (nat a) (content f)))
          else None
      | _ \<Rightarrow> None)"

text \<open>The catch block: \<^verbatim>\<open>res.status(500).json({success: false, error: 'Failed to stream video'})\<close>.\<close>

definition stream_error :: response where
  "stream_error =
     \<lparr>status = 500, headers = [],
      body = JsonBody [(''success'', ''false''), (''error'', ''Failed to stream video'')]\<rparr>"

text \<open>
  \<^verbatim>\<open>streamVideoFile(filePath, req, res)\<close>. The request enters through its \<^verbatim>\<open>range\<close>
  header (\<open>None\<close> when absent); an empty header value is falsy, like an absent one. The
  result is the response written to \<^verbatim>\<open>res\<close>: the status and headers of \<^verbatim>\<open>writeHead\<close>
  and the bytes piped into it. A throw anywhere in the \<^verbatim>\<open>try\<close> (the explicit
  \<^verbatim>\<open>Video file not found\<close>, or the stream's validation, which precedes \<^verbatim>\<open>writeHead\<close>)
  reaches the catch block.
\<close>

definition streamVideoFile :: "filesystem \<Rightarrow> path \<Rightarrow> string option \<Rightarrow> response" where
  "streamVideoFile fs filePath rangeHdr =
     (case map_of fs filePath of
        None \<Rightarrow> stream_error
      | Some f \<Rightarrow>
          let fileSize = int (length (content f)) in
          if rangeHdr \<noteq> None \<and> rangeHdr \<noteq> Some [] then
            let parts = split_on CHR ''-'' (replace_first ''bytes='' [] (the rangeHdr));
                start = parseInt (hd parts);
                end = (case tl parts of
                         p1 # _ \<Rightarrow> if p1 \<noteq> [] then parseInt p1 else Some (fileSize - 1)
                       | [] \<Rightarrow> Some (fileSize - 1));
                chunksize = js_add (js_sub end start) (Some 1)
            in (case createReadStream f start end of
                  None \<Rightarrow> stream_error
                | Some bytes \<Rightarrow>
                    \<lparr>status = 206,
                     headers =
                       [(''Content-Range'',
                           ''bytes '' @ show_num start @ ''-'' @ show_num end @ ''/''
                             @ show_int fileSize),
                        (''Accept-Ranges'', ''bytes''),
                        (''Content-Length'', show_num chunksize),
                        (''Content-Type'', ''video/mp4'')],
                     body = FileStream bytes\<rparr>)
          else
            \<lparr>status = 200,
             headers =
               [(''Content-Length'', show_int fileSize),
                (''Content-Type'', ''video/mp4''),
                (''Cache-Control'', ''public, max-age=604800'')],
             body = FileStream (content f)\<rparr>)"

subsection \<open>File-system calls of the store\<close>

text \<open>
  \<^verbatim>\<open>fs.existsSync(p)\<close> where \<open>p\<close> may be \<^verbatim>\<open>null\<close> (a cleared \<^verbatim>\<open>localPath\<close>): false.
\<close>

definition existsSync_opt :: "filesystem \<Rightarrow> path option \<Rightarrow> bool" where
  "existsSync_opt fs p = (case p of None \<Rightarrow> False | Some q \<Rightarrow> existsSync fs q)"

text \<open>
  \<^verbatim>\<open>path.join(dir, name)\<close>, without the normalisation of \<^verbatim>\<open>.\<close> and \<^verbatim>\<open>..\<close> segments:
  the names joined here are content ids and sanitised titles.
\<close>

definition path_join :: "path \<Rightarrow> string \<Rightarrow> path" where
  "path_join dir name = dir @ ''/'' @ name"

text \<open>\<^verbatim>\<open>fs.copyFileSync(src, dest)\<close>: \<open>dest\<close> is created or overwritten, written now.\<close>

definition copyFileSync :: "nat \<Rightarrow> filesystem \<Rightarrow> path \<Rightarrow> path \<Rightarrow> filesystem" where
  "copyFileSync now fs src dest =
     (case map_of fs src of
        None \<Rightarrow> fs
      | Some f \<Rightarrow> AList.update dest \<lparr>content = content f, mtimeMs = now\<rparr> fs)"

definition unlinkSync :: "filesystem \<Rightarrow> path \<Rightarrow> filesystem" where
  "unlinkSync fs p = AList.delete p fs"

definition renameSync :: "filesystem \<Rightarrow> path \<Rightarrow> path \<Rightarrow> filesystem" where
  "renameSync fs old new =
     (case map_of fs old of
        None \<Rightarrow> fs
      | Some f \<Rightarrow> AList.update new f (AList.delete old fs))"

text \<open>
  \<^verbatim>\<open>fs.readdirSync(dir)\<close>: the names directly inside \<open>dir\<close>. The model has regular files
  only; the store and the temporary directory are flat.
\<close>

definition entry_name :: "path \<Rightarrow> path \<Rightarrow> string option" where
  "entry_name dir p =
     (if prefix (dir @ ''/'') p \<and> CHR ''/'' \<notin> set (drop (length (dir @ ''/'')) p)
      then Some (drop (length (dir @ ''/'')) p) else None)"

definition readdirSync :: "filesystem \<Rightarrow> path \<Rightarrow> string list" where
  "readdirSync fs dir = List.map_filter (\<lambda>(p, f). entry_name dir p) fs"

subsection \<open>The catalog: the \<^verbatim>\<open>TrailerStorage\<close> collection\<close>

text \<open>
  One document per cached trailer, with the paths of the schema
  \<^verbatim>\<open>trailerStorageSchema\<close> (\<^verbatim>\<open>models/TrailerStorage.js\<close>). A path that a document in
  memory can hold as \<^verbatim>\<open>null\<close> or \<^verbatim>\<open>undefined\<close> is an option. \<^verbatim>\<open>tmdbId\<close> is the number
  that the schema's cast to \<^verbatim>\<open>Number\<close> yields, \<open>None\<close> when there is none. The paths
  \<^verbatim>\<open>format\<close> and \<^verbatim>\<open>extension\<close>, which \<^verbatim>\<open>saveVideo\<close> assigns, are not in the schema:
  Mongoose does not store them, and they are left out.

  The collection is the list of its documents in storage order; documents are never
  deleted, so a document is identified by its position, which stands for its \<^verbatim>\<open>_id\<close>.
\<close>

record trailer =
  contentId :: string
  tmdbId :: "rat option"
  mediaType :: string
  title :: "string option"
  localPath :: "path option"
  fileSizeMB :: rat
  videoQuality :: string
  duration :: "rat option"
  resolution :: "string option"
  accessCount :: nat
  lastAccessed :: nat
  priority :: int
  isActive :: bool
  createdAt :: nat
  updatedAt :: nat

type_synonym doc = "nat \<times> trailer"

text \<open>\<^verbatim>\<open>TrailerStorage.findOne(query)\<close>: the first document that matches, or none.\<close>

fun findOne_from :: "nat \<Rightarrow> (trailer \<Rightarrow> bool) \<Rightarrow> trailer list \<Rightarrow> doc option" where
  "findOne_from i P [] = None"
| "findOne_from i P (r # rs) = (if P r then Some (i, r) else findOne_from (Suc i) P rs)"

definition findOne :: "(trailer \<Rightarrow> bool) \<Rightarrow> trailer list \<Rightarrow> doc option" where
  "findOne P cat = findOne_from 0 P cat"

text \<open>
  \<^verbatim>\<open>doc.save()\<close> on a document that was read from the collection: Mongoose writes the
  fields assigned since the read; \<open>upd\<close> is these assignments.
\<close>

definition save :: "nat \<Rightarrow> (trailer \<Rightarrow> trailer) \<Rightarrow> trailer list \<Rightarrow> trailer list" where
  "save i upd cat = cat[i := upd (cat ! i)]"

text \<open>
  The validators of the schema, which \<^verbatim>\<open>save\<close> runs before it writes: the paths
  \<^verbatim>\<open>contentId\<close>, \<^verbatim>\<open>tmdbId\<close>, \<^verbatim>\<open>mediaType\<close>, \<^verbatim>\<open>title\<close>, \<^verbatim>\<open>localPath\<close> and
  \<^verbatim>\<open>fileSizeMB\<close> are \<^verbatim>\<open>required\<close>, and \<^verbatim>\<open>mediaType\<close> is one of \<^verbatim>\<open>movie\<close> and \<^verbatim>\<open>tv\<close>.
  \<^verbatim>\<open>required\<close> rejects \<^verbatim>\<open>null\<close> and \<^verbatim>\<open>undefined\<close> and, for a string, the empty string.
  \<^verbatim>\<open>fileSizeMB\<close> is always a number here.
\<close>

definition required_string :: "string option \<Rightarrow> bool" where
  "required_string v = (case v of None \<Rightarrow> False | Some x \<Rightarrow> x \<noteq> [])"

definition validate :: "trailer \<Rightarrow> bool" where
  "validate r =
     (contentId r \<noteq> [] \<and> tmdbId r \<noteq> None \<and>
      (mediaType r = ''movie'' \<or> mediaType r = ''tv'') \<and>
      required_string (title r) \<and> required_string (localPath r))"

text \<open>
  The input \<^verbatim>\<open>metadata\<close> of an acquisition; a field may be undefined. \<open>md_tmdbId\<close> is
  \<^verbatim>\<open>metadata.tmdbId\<close> as the schema's cast to \<^verbatim>\<open>Number\<close> reads it (the route passes the
  digits of the URL).
\<close>

record metadata =
  md_tmdbId :: "rat option"
  md_mediaType :: string
  md_title :: "string option"
  md_priority :: "int option"

text \<open>
  \<^verbatim>\<open>new TrailerStorage({...})\<close> as \<^verbatim>\<open>saveVideo\<close> calls it: the paths it passes, and the
  defaults of the schema for the others (\<^verbatim>\<open>accessCount\<close> 0, \<^verbatim>\<open>isActive\<close> true, the three
  dates \<^verbatim>\<open>Date.now\<close>; \<^verbatim>\<open>duration\<close> and \<^verbatim>\<open>resolution\<close> have no default).
  \<^verbatim>\<open>metadata.priority || 1\<close> turns an undefined or zero priority into 1.
\<close>

definition new_TrailerStorage :: "nat \<Rightarrow> string \<Rightarrow> metadata \<Rightarrow> path \<Rightarrow> rat \<Rightarrow> trailer" where
  "new_TrailerStorage now cid md finalPath mb =
     \<lparr>contentId = cid, tmdbId = md_tmdbId md, mediaType = md_mediaType md,
      title = md_title md, localPath = Some finalPath, fileSizeMB = mb,
      videoQuality = ''1080p'', duration = None, resolution = None,
      accessCount = 0, lastAccessed = now,
      priority = (case md_priority md of None \<Rightarrow> 1 | Some q \<Rightarrow> if q = 0 then 1 else q),
      isActive = True, createdAt = now, updatedAt = now\<rparr>"

subsection \<open>State, configuration, failures\<close>

text \<open>
  The state the two services share: the storage manager's fields, the download service's
  lock table and temporary directory, the file system, the collection, and the clock
  (\<^verbatim>\<open>Date.now()\<close>, in milliseconds).
\<close>

record state =
  initialized :: bool
  trailerPath :: path
  tempDir :: path
  files :: filesystem
  catalog :: "trailer list"
  locks :: "string set"
  clock :: nat

text \<open>\<^verbatim>\<open>MAX_STORAGE_GB\<close> and \<^verbatim>\<open>MAX_VIDEOS\<close>: from the environment, else 1000 and 500.\<close>

record config =
  MAX_STORAGE_GB :: rat
  MAX_VIDEOS :: rat

definition default_config :: config where
  "default_config = \<lparr>MAX_STORAGE_GB = 1000, MAX_VIDEOS = 500\<rparr>"

text \<open>
  The calls into Node, Mongoose and the file system that can throw or reject, one name
  per call site. A run is given a set of failing calls, \<open>F\<close>: \<open>F c\<close> says that call \<open>c\<close>
  fails in this run. The calls inside loops carry the document position or the path they
  work on. \<open>IoFailure c\<close> is the error of call \<open>c\<close>; a \<^verbatim>\<open>save\<close> that the validators of
  the schema reject is a failure of that \<^verbatim>\<open>save\<close>. Where the code builds the document
  or assigns a validated path (\<^verbatim>\<open>saveVideo\<close>, \<^verbatim>\<open>cleanup\<close>) the validators are applied
  to the document as the code has made it; where it assigns only \<^verbatim>\<open>isActive\<close> or the
  access statistics of a stored document (\<^verbatim>\<open>getVideoInfo\<close>, the first check of
  \<^verbatim>\<open>downloadAndStore\<close>), whether the \<^verbatim>\<open>save\<close> passes is part of \<open>F\<close>.
\<close>

datatype io =
    DsImportModel | DsFindExisting | DsSaveInactive | DsFindDoubleCheck
  | DlRename | DlStat | DlUnlink
  | SvImportMongoose | SvCopyFile | SvStat | SvStartSession | SvStartTransaction
  | SvFindOne | SvSave | SvCommit | SvAbort | SvUnlink
  | GvFindOne | GvSaveInactive | GvSaveAccess
  | GsReaddir | GsStat string
  | ClFind | ClUnlink nat | ClSave nat
  | CtReaddir | CtStat path | CtUnlink path

type_synonym faults = "io \<Rightarrow> bool"

datatype error =
    NotInitialized
  | TempFileNotFound path
  | LockTimeout string
  | LockNotAcquired string
  | DownloadedFileNotFound
  | TypeError
  | ExecFailed
  | IoFailure io

text \<open>What \<^verbatim>\<open>saveVideo\<close> and \<^verbatim>\<open>downloadYouTubeMP4\<close> return: a path and a size.\<close>

record file_result =
  path :: path
  sizeMB :: rat

definition ensureInitialized :: "state \<Rightarrow> bool" where
  "ensureInitialized s = initialized s"

definition getVideoPath :: "state \<Rightarrow> string \<Rightarrow> path" where
  "getVideoPath s cid = path_join (trailerPath s) (cid @ ''.mp4'')"

definition mb_of :: "nat \<Rightarrow> rat" where
  "mb_of bytes = of_nat bytes / (1024 * 1024)"

subsection \<open>\<^verbatim>\<open>getVideoInfo\<close>\<close>

text \<open>
  The whole body is inside one \<^verbatim>\<open>try\<close> whose catch returns \<^verbatim>\<open>null\<close>; only
  \<^verbatim>\<open>ensureInitialized\<close> is outside. The result is \<^verbatim>\<open>null\<close> (\<open>None\<close>) or the pair of
  the path and the document.
\<close>

definition getVideoInfo ::
  "faults \<Rightarrow> state \<Rightarrow> string \<Rightarrow> state \<times> (error + (path \<times> trailer) option)" where
  "getVideoInfo F s cid =
     (if \<not> ensureInitialized s then (s, Inl NotInitialized)
      else if F GvFindOne then (s, Inr None)
      else
        (case findOne (\<lambda>r. contentId r = cid \<and> isActive r) (catalog s) of
           None \<Rightarrow> (s, Inr None)
         | Some (i, record) \<Rightarrow>
             if \<not> existsSync_opt (files s) (localPath record) then
               (if F GvSaveInactive then (s, Inr None)
                else (s\<lparr>catalog := save i (\<lambda>r. r\<lparr>isActive := False\<rparr>) (catalog s)\<rparr>,
                      Inr None))
             else
               (if F GvSaveAccess then (s, Inr None)
                else
                  (s\<lparr>catalog :=
                       save i (\<lambda>r. r\<lparr>accessCount := accessCount record + 1,
                                       lastAccessed := clock s\<rparr>) (catalog s)\<rparr>,
                   Inr (Some (the (localPath record),
                              record\<lparr>accessCount := accessCount record + 1,
                                     lastAccessed := clock s\<rparr>))))))"

subsection \<open>\<^verbatim>\<open>getStorageStats\<close>, \<^verbatim>\<open>cleanup\<close>, \<^verbatim>\<open>checkAndCleanup\<close>\<close>

record storage_stats =
  fileCount :: nat
  usedGB :: rat
  freeGB :: rat

text \<open>
  The size of each listed file is added unless its \<^verbatim>\<open>statSync\<close> throws, which is
  logged and skipped; a failing \<^verbatim>\<open>readdirSync\<close> gives the fallback object.
\<close>

definition getStorageStats :: "faults \<Rightarrow> config \<Rightarrow> state \<Rightarrow> storage_stats" where
  "getStorageStats F C s =
     (if F GsReaddir then \<lparr>fileCount = 0, usedGB = 0, freeGB = MAX_STORAGE_GB C\<rparr>
      else
        let names = filter (suffix ''.mp4'') (readdirSync (files s) (trailerPath s));
            totalSize =
              sum_list (map (\<lambda>name.
                  if F (GsStat name) then 0
                  else (case map_of (files s) (path_join (trailerPath s) name) of
                          None \<Rightarrow> 0 | Some f \<Rightarrow> length (content f))) names)
        in \<lparr>fileCount = length names,
            usedGB = of_nat totalSize / (1024 * 1024 * 1024),
            freeGB = MAX_STORAGE_GB C - of_nat totalSize / (1024 * 1024 * 1024)\<rparr>)"

text \<open>
  The query of \<^verbatim>\<open>cleanup\<close>: \<^verbatim>\<open>find({isActive: true, priority: 1})\<close>, sorted by
  \<^verbatim>\<open>lastAccessed\<close> then \<^verbatim>\<open>accessCount\<close>, both ascending, limited to 10. MongoDB leaves
  the order of documents with equal sort keys open; here they keep their storage order.
\<close>

definition cleanup_query :: "doc \<Rightarrow> bool" where
  "cleanup_query d = (isActive (snd d) \<and> priority (snd d) = 1)"

definition cleanup_sort :: "doc \<Rightarrow> nat \<times> nat" where
  "cleanup_sort d = (lastAccessed (snd d), accessCount (snd d))"

definition eviction_candidates :: "trailer list \<Rightarrow> doc list" where
  "eviction_candidates cat =
     take 10 (sort_key cleanup_sort (filter cleanup_query (enumerate 0 cat)))"

text \<open>
  One round of the loop of \<^verbatim>\<open>cleanup\<close>, with its own \<^verbatim>\<open>try\<close>: delete the file if the
  document has a path and the file exists, then mark the document inactive, clear its
  path and save it. The flag says whether the round counted a deletion; a throw of
  \<^verbatim>\<open>unlinkSync\<close> or of \<^verbatim>\<open>save\<close> ends the round without counting. The \<^verbatim>\<open>save\<close>
  validates the document as the round has made it, with \<^verbatim>\<open>localPath\<close> \<^verbatim>\<open>null\<close>.
\<close>

definition evict_one :: "faults \<Rightarrow> doc \<Rightarrow> state \<Rightarrow> state \<times> bool" where
  "evict_one F d s =
     (let i = fst d; video = snd d;
          must_unlink = existsSync_opt (files s) (localPath video)
      in if must_unlink \<and> F (ClUnlink i) then (s, False)
         else
           let s1 = (if must_unlink
                     then s\<lparr>files := unlinkSync (files s) (the (localPath video))\<rparr> else s);
               video1 = video\<lparr>isActive := False, localPath := None\<rparr>
           in if \<not> validate video1 \<or> F (ClSave i) then (s1, False)
              else (s1\<lparr>catalog :=
                          save i (\<lambda>r. r\<lparr>isActive := False, localPath := None\<rparr>)
                            (catalog s1)\<rparr>, True))"

fun cleanup_loop :: "faults \<Rightarrow> doc list \<Rightarrow> state \<Rightarrow> nat \<Rightarrow> state \<times> nat" where
  "cleanup_loop F [] s deletedCount = (s, deletedCount)"
| "cleanup_loop F (video # candidates) s deletedCount =
     (case evict_one F video s of
        (s1, True) \<Rightarrow> cleanup_loop F candidates s1 (deletedCount + 1)
      | (s1, False) \<Rightarrow> cleanup_loop F candidates s1 deletedCount)"

definition cleanup :: "faults \<Rightarrow> state \<Rightarrow> state \<times> (error + nat)" where
  "cleanup F s =
     (if \<not> ensureInitialized s then (s, Inl NotInitialized)
      else if F ClFind then (s, Inr 0)
      else
        (case cleanup_loop F (eviction_candidates (catalog s)) s 0 of
           (s1, deletedCount) \<Rightarrow> (s1, Inr deletedCount)))"

text \<open>Nine tenths of either limit starts a cleanup; errors inside are caught and logged.\<close>

definition checkAndCleanup :: "faults \<Rightarrow> config \<Rightarrow> state \<Rightarrow> state \<times> (error + unit)" where
  "checkAndCleanup F C s =
     (if \<not> ensureInitialized s then (s, Inl NotInitialized)
      else
        let stats = getStorageStats F C s in
        if usedGB stats > MAX_STORAGE_GB C * (9 / 10)
           \<or> of_nat (fileCount stats) > MAX_VIDEOS C * (9 / 10)
        then (fst (cleanup F s), Inr ())
        else (s, Inr ()))"

subsection \<open>\<^verbatim>\<open>saveVideo\<close>\<close>

text \<open>
  The \<^verbatim>\<open>try\<close> block of \<^verbatim>\<open>saveVideo\<close>, up to the commit. Its result carries what the
  catch block reads: whether \<^verbatim>\<open>session\<close> has been assigned, and \<^verbatim>\<open>finalPath\<close>
  (\<open>None\<close> while still \<^verbatim>\<open>null\<close>). The document is found and saved inside the
  transaction, so the collection changes at the commit and not before; a transaction that
  does not commit leaves the collection as it was. The \<^verbatim>\<open>save\<close> validates the document:
  the one found, with the paths assigned to it, or the new one.
\<close>

definition saveVideo_try ::
  "faults \<Rightarrow> state \<Rightarrow> string \<Rightarrow> path \<Rightarrow> metadata
     \<Rightarrow> state \<times> bool \<times> path option \<times> (error + file_result)" where
  "saveVideo_try F s cid tempFilePath md =
     (if F SvImportMongoose then (s, False, None, Inl (IoFailure SvImportMongoose))
      else if \<not> existsSync (files s) tempFilePath
      then (s, False, None, Inl (TempFileNotFound tempFilePath))
      else
        let finalPath = getVideoPath s cid in
        if F SvCopyFile then (s, False, Some finalPath, Inl (IoFailure SvCopyFile))
        else
          let s1 = s\<lparr>files := copyFileSync (clock s) (files s) tempFilePath finalPath\<rparr> in
          if F SvStat then (s1, False, Some finalPath, Inl (IoFailure SvStat))
          else
            let size = (case map_of (files s1) finalPath of
                          None \<Rightarrow> 0 | Some f \<Rightarrow> length (content f)) in
            if F SvStartSession
            then (s1, False, Some finalPath, Inl (IoFailure SvStartSession))
            else if F SvStartTransaction
            then (s1, True, Some finalPath, Inl (IoFailure SvStartTransaction))
            else if F SvFindOne then (s1, True, Some finalPath, Inl (IoFailure SvFindOne))
            else
              (case findOne (\<lambda>r. contentId r = cid) (catalog s1) of
                 Some (i, existing) \<Rightarrow>
                   let updated = existing\<lparr>localPath := Some finalPath,
                                          fileSizeMB := mb_of size,
                                          updatedAt := clock s1, isActive := True\<rparr>
                   in if \<not> validate updated \<or> F SvSave
                      then (s1, True, Some finalPath, Inl (IoFailure SvSave))
                      else if F SvCommit
                      then (s1, True, Some finalPath, Inl (IoFailure SvCommit))
                      else (s1\<lparr>catalog :=
                                  save i (\<lambda>r. r\<lparr>localPath := Some finalPath,
                                                  fileSizeMB := mb_of size,
                                                  updatedAt := clock s1, isActive := True\<rparr>)
                                    (catalog s1)\<rparr>,
                            True, Some finalPath, Inr \<lparr>path = finalPath, sizeMB = mb_of size\<rparr>)
               | None \<Rightarrow>
                   let storageRecord =
                         new_TrailerStorage (clock s1) cid md finalPath (mb_of size)
                   in if \<not> validate storageRecord \<or> F SvSave
                      then (s1, True, Some finalPath, Inl (IoFailure SvSave))
                      else if F SvCommit
                      then (s1, True, Some finalPath, Inl (IoFailure SvCommit))
                      else (s1\<lparr>catalog := catalog s1 @ [storageRecord]\<rparr>,
                            True, Some finalPath,
                            Inr \<lparr>path = finalPath, sizeMB = mb_of size\<rparr>)))"

text \<open>
  \<^verbatim>\<open>saveVideo\<close>: \<^verbatim>\<open>ensureInitialized\<close> is outside the \<^verbatim>\<open>try\<close>. After the commit the
  capacity check runs, then the result is returned. The catch block aborts the transaction
  when \<^verbatim>\<open>session\<close> is set, removes the file at \<^verbatim>\<open>finalPath\<close> when that is set and
  exists, and throws the error again; when the abort or the removal throws, that error
  leaves the catch block instead and the rest of the block is skipped. The
  \<^verbatim>\<open>endSession\<close> of the \<^verbatim>\<open>finally\<close> is not awaited and changes nothing here.
\<close>

definition saveVideo ::
  "faults \<Rightarrow> config \<Rightarrow> state \<Rightarrow> string \<Rightarrow> path \<Rightarrow> metadata
     \<Rightarrow> state \<times> (error + file_result)" where
  "saveVideo F C s cid tempFilePath md =
     (if \<not> ensureInitialized s then (s, Inl NotInitialized)
      else
        (case saveVideo_try F s cid tempFilePath md of
           (s1, session, finalPath, Inr result) \<Rightarrow> (fst (checkAndCleanup F C s1), Inr result)
         | (s1, session, finalPath, Inl e) \<Rightarrow>
             if session \<and> F SvAbort then (s1, Inl (IoFailure SvAbort))
             else if existsSync_opt (files s1) finalPath then
               (if F SvUnlink then (s1, Inl (IoFailure SvUnlink))
                else (s1\<lparr>files := unlinkSync (files s1) (the finalPath)\<rparr>, Inl e))
             else (s1, Inl e)))"

subsection \<open>The download service\<close>

definition acquireLock :: "state \<Rightarrow> string \<Rightarrow> state \<times> bool" where
  "acquireLock s cid =
     (if cid \<in> locks s then (s, False) else (s\<lparr>locks := insert cid (locks s)\<rparr>, True))"

definition releaseLock :: "state \<Rightarrow> string \<Rightarrow> state" where
  "releaseLock s cid = s\<lparr>locks := locks s - {cid}\<rparr>"

text \<open>
  \<^verbatim>\<open>waitForLock\<close>, for an invocation that runs alone: between two polls the clock
  advances by the second the loop sleeps, and nobody else changes the lock table. The test
  for a free lock and \<^verbatim>\<open>acquireLock\<close> run without an \<^verbatim>\<open>await\<close> between them.
\<close>

function waitForLock_loop :: "nat \<Rightarrow> nat \<Rightarrow> state \<Rightarrow> string \<Rightarrow> state \<times> (error + bool)" where
  "waitForLock_loop startTime timeout s cid =
     (if cid \<in> locks s then
        (if int (clock s) - int startTime > int timeout then (s, Inl (LockTimeout cid))
         else waitForLock_loop startTime timeout (s\<lparr>clock := clock s + 1000\<rparr>) cid)
      else (case acquireLock s cid of (s1, acquired) \<Rightarrow> (s1, Inr acquired)))"
  by pat_completeness auto
termination
  by (relation "measure (\<lambda>(startTime, timeout, s, cid). startTime + timeout + 1 - clock s)")
    auto

declare waitForLock_loop.simps [simp del]

definition waitForLock :: "state \<Rightarrow> string \<Rightarrow> nat \<Rightarrow> state \<times> (error + bool)" where
  "waitForLock s cid timeout = waitForLock_loop (clock s) timeout s cid"

text \<open>
  What running \<^verbatim>\<open>yt-dlp\<close> does, as far as the service can see: the command is
  rejected (an error status or the five-minute timeout), possibly leaving bytes at the
  output path; or it ends well, having written the output path, the same path with the
  \<^verbatim>\<open>.mkv\<close> extension, or nothing.
\<close>

datatype exec_result =
    ExecRejected "byte list option"
  | ExecWroteMp4 "byte list"
  | ExecWroteMkv "byte list"
  | ExecWroteNothing

definition is_word :: "char \<Rightarrow> bool" where
  "is_word c =
     (let n = (of_char c :: nat)
      in (48 \<le> n \<and> n \<le> 57) \<or> (65 \<le> n \<and> n \<le> 90) \<or> (97 \<le> n \<and> n \<le> 122) \<or> n = 95)"

text \<open>\<^verbatim>\<open>title.replace(/[^\w\s]/gi, '_').substring(0, 50)\<close>, for an ASCII title.\<close>

definition safeTitle :: "string \<Rightarrow> string" where
  "safeTitle t = take 50 (map (\<lambda>c. if is_word c \<or> is_space c then c else CHR ''_'') t)"

definition writeFile :: "nat \<Rightarrow> filesystem \<Rightarrow> path \<Rightarrow> byte list \<Rightarrow> filesystem" where
  "writeFile now fs p bytes = AList.update p \<lparr>content = bytes, mtimeMs = now\<rparr> fs"

text \<open>
  \<^verbatim>\<open>downloadYouTubeMP4(youtubeUrl, title)\<close>. An undefined title makes
  \<^verbatim>\<open>title.replace\<close> throw before the \<^verbatim>\<open>try\<close>. The catch block removes the output file
  if it exists and throws the error again.
\<close>

definition downloadYouTubeMP4 ::
  "faults \<Rightarrow> exec_result \<Rightarrow> state \<Rightarrow> string \<Rightarrow> string option
     \<Rightarrow> state \<times> (error + file_result)" where
  "downloadYouTubeMP4 F X s youtubeUrl videoTitle =
     (case videoTitle of
        None \<Rightarrow> (s, Inl TypeError)
      | Some t \<Rightarrow>
          let tempFile =
                path_join (tempDir s) (safeTitle t @ ''_'' @ show_nat (clock s) @ ''.mp4'');
              altFile = replace_first ''.mp4'' ''.mkv'' tempFile;
              s1 = s\<lparr>files :=
                     (case X of
                        ExecRejected (Some bytes) \<Rightarrow> writeFile (clock s) (files s) tempFile bytes
                      | ExecRejected None \<Rightarrow> files s
                      | ExecWroteMp4 bytes \<Rightarrow> writeFile (clock s) (files s) tempFile bytes
                      | ExecWroteMkv bytes \<Rightarrow> writeFile (clock s) (files s) altFile bytes
                      | ExecWroteNothing \<Rightarrow> files s)\<rparr>;
              stat = (\<lambda>s2. if F DlStat then (s2, Inl (IoFailure DlStat))
                            else (s2, Inr \<lparr>path = tempFile,
                                          sizeMB = mb_of (case map_of (files s2) tempFile of
                                                            None \<Rightarrow> 0
                                                          | Some f \<Rightarrow> length (content f))\<rparr>));
              attempt =
                (case X of
                   ExecRejected _ \<Rightarrow> (s1, Inl ExecFailed)
                 | _ \<Rightarrow>
                     if \<not> existsSync (files s1) tempFile then
                       (if existsSync (files s1) altFile then
                          (if F DlRename then (s1, Inl (IoFailure DlRename))
                           else stat (s1\<lparr>files := renameSync (files s1) altFile tempFile\<rparr>))
                        else (s1, Inl DownloadedFileNotFound))
                     else stat s1)
          in (case attempt of
                (s2, Inr r) \<Rightarrow> (s2, Inr r)
              | (s2, Inl e) \<Rightarrow>
                  if existsSync (files s2) tempFile then
                    (if F DlUnlink then (s2, Inl (IoFailure DlUnlink))
                     else (s2\<lparr>files := unlinkSync (files s2) tempFile\<rparr>, Inl e))
                  else (s2, Inl e)))"

text \<open>
  \<^verbatim>\<open>cleanupTempFiles\<close>: every file of the temporary directory older than an hour is
  removed. The whole body is in a \<^verbatim>\<open>try\<close> whose catch only logs, so a throw ends the
  loop where it is.
\<close>

fun cleanupTemp_loop :: "faults \<Rightarrow> nat \<Rightarrow> path list \<Rightarrow> filesystem \<Rightarrow> filesystem" where
  "cleanupTemp_loop F now [] fs = fs"
| "cleanupTemp_loop F now (filePath # rest) fs =
     (case map_of fs filePath of
        None \<Rightarrow> cleanupTemp_loop F now rest fs
      | Some f \<Rightarrow>
          if F (CtStat filePath) then fs
          else if int now - int (mtimeMs f) > 3600000 then
            (if F (CtUnlink filePath) then fs
             else cleanupTemp_loop F now rest (unlinkSync fs filePath))
          else cleanupTemp_loop F now rest fs)"

definition cleanupTempFiles :: "faults \<Rightarrow> state \<Rightarrow> state" where
  "cleanupTempFiles F s =
     (if F CtReaddir then s
      else s\<lparr>files :=
             cleanupTemp_loop F (clock s)
               (map (path_join (tempDir s)) (readdirSync (files s) (tempDir s))) (files s)\<rparr>)"

text \<open>
  \<^verbatim>\<open>downloadAndStore\<close>, in the three parts its comments name.

  FIRST, before the lock: the document of the content id is looked up; an active document
  whose file exists ends the invocation with its path (\<open>Some\<close>); an active document whose
  file is missing is marked inactive and saved, and the invocation goes on (\<open>None\<close>).
\<close>

definition firstCheck :: "faults \<Rightarrow> state \<Rightarrow> string \<Rightarrow> state \<times> (error + path option)" where
  "firstCheck F s cid =
     (if F DsImportModel then (s, Inl (IoFailure DsImportModel))
      else if F DsFindExisting then (s, Inl (IoFailure DsFindExisting))
      else
        (case findOne (\<lambda>r. contentId r = cid) (catalog s) of
           None \<Rightarrow> (s, Inr None)
         | Some (i, existingRecord) \<Rightarrow>
             if isActive existingRecord then
               (if existsSync_opt (files s) (localPath existingRecord)
                then (s, Inr (localPath existingRecord))
                else if F DsSaveInactive then (s, Inl (IoFailure DsSaveInactive))
                else (s\<lparr>catalog := save i (\<lambda>r. r\<lparr>isActive := False\<rparr>) (catalog s)\<rparr>,
                      Inr None))
             else (s, Inr None)))"

text \<open>
  THIRD, with the lock held: the double check, then the download, the commit into the
  store and the sweep of the temporary directory. Every way out, by return or by throw,
  passes through the \<^verbatim>\<open>finally\<close> of \<^verbatim>\<open>downloadAndStore\<close>.
\<close>

definition fetchAndStore ::
  "faults \<Rightarrow> exec_result \<Rightarrow> config \<Rightarrow> state \<Rightarrow> string \<Rightarrow> string \<Rightarrow> metadata
     \<Rightarrow> state \<times> (error + path)" where
  "fetchAndStore F X C s cid youtubeUrl md =
     (case downloadYouTubeMP4 F X s youtubeUrl (md_title md) of
        (s1, Inl e) \<Rightarrow> (s1, Inl e)
      | (s1, Inr downloadResult) \<Rightarrow>
          (case saveVideo F C s1 cid (path downloadResult) md of
             (s2, Inl e) \<Rightarrow> (s2, Inl e)
           | (s2, Inr result) \<Rightarrow> (cleanupTempFiles F s2, Inr (path result))))"

definition lockedSection ::
  "faults \<Rightarrow> exec_result \<Rightarrow> config \<Rightarrow> state \<Rightarrow> string \<Rightarrow> string \<Rightarrow> metadata
     \<Rightarrow> state \<times> (error + path)" where
  "lockedSection F X C s cid youtubeUrl md =
     (if F DsFindDoubleCheck then (s, Inl (IoFailure DsFindDoubleCheck))
      else
        (case findOne (\<lambda>r. contentId r = cid \<and> isActive r) (catalog s) of
           None \<Rightarrow> fetchAndStore F X C s cid youtubeUrl md
         | Some (i, doubleCheck) \<Rightarrow>
             if existsSync_opt (files s) (localPath doubleCheck)
             then (s, Inr (the (localPath doubleCheck)))
             else fetchAndStore F X C s cid youtubeUrl md))"

text \<open>
  SECOND and THIRD: what follows a first check that did not return. \<^verbatim>\<open>lockAcquired\<close>
  is false until \<^verbatim>\<open>waitForLock\<close> has returned; the \<^verbatim>\<open>finally\<close> releases the lock
  exactly when it is true. \<^verbatim>\<open>waitForLock\<close> is called with its default timeout of
  30000 ms.
\<close>

definition acquisition ::
  "faults \<Rightarrow> exec_result \<Rightarrow> config \<Rightarrow> state \<Rightarrow> string \<Rightarrow> string \<Rightarrow> metadata
     \<Rightarrow> state \<times> (error + path)" where
  "acquisition F X C s1 cid youtubeUrl md =
     (case waitForLock s1 cid 30000 of
        (s2, Inl e) \<Rightarrow> (s2, Inl e)
      | (s2, Inr False) \<Rightarrow> (s2, Inl (LockNotAcquired cid))
      | (s2, Inr True) \<Rightarrow>
          (case lockedSection F X C s2 cid youtubeUrl md of
             (s3, result) \<Rightarrow> (releaseLock s3 cid, result)))"

text \<open>The whole invocation.\<close>

definition downloadAndStore ::
  "faults \<Rightarrow> exec_result \<Rightarrow> config \<Rightarrow> state \<Rightarrow> string \<Rightarrow> string \<Rightarrow> metadata
     \<Rightarrow> state \<times> (error + path)" where
  "downloadAndStore F X C s cid youtubeUrl md =
     (case firstCheck F s cid of
        (s1, Inl e) \<Rightarrow> (s1, Inl e)
      | (s1, Inr (Some existingPath)) \<Rightarrow> (s1, Inr existingPath)
      | (s1, Inr None) \<Rightarrow> acquisition F X C s1 cid youtubeUrl md)"


text \<open>
  The specification's \<^verbatim>\<open>NotFound\<close> outcome of the stream server, as a response: the
  not-found status of HTTP.
\<close>

definition not_found_response :: "response \<Rightarrow> bool" where
  "not_found_response r = (status r = 404)"

text \<open>A file of 1000 bytes whose byte at offset \<open>i\<close> is \<open>i mod 256\<close>.\<close>

definition demo_file :: stored_file where
  "demo_file = \<lparr>content = map of_nat [0..<1000], mtimeMs = 0\<rparr>"

text \<open>The run in which no call fails.\<close>

definition ok :: faults where
  "ok = (\<lambda>c. False)"

subsection \<open>Concurrent invocations of \<^verbatim>\<open>downloadAndStore\<close>\<close>

text \<open>
  Node runs the invocations on one thread: an invocation runs until it awaits, then
  another one may run. A task is an invocation together with the place where it is
  suspended:
  \<^item> \<open>Start\<close>: called, the first lookup pending;
  \<^item> \<open>Waiting\<close>: in the loop of \<^verbatim>\<open>waitForLock\<close>;
  \<^item> \<open>Locked\<close>: the lock acquired, the double check pending;
  \<^item> \<open>Fetching\<close>: inside \<^verbatim>\<open>downloadYouTubeMP4\<close>, the download running;
  \<^item> \<open>Storing\<close>: the download returned, \<^verbatim>\<open>saveVideo\<close> pending;
  \<^item> \<open>Done\<close>: returned a path or thrown an error, the \<^verbatim>\<open>finally\<close> passed.
  \<open>fetched\<close> records that the invocation has called \<^verbatim>\<open>downloadYouTubeMP4\<close>.
\<close>

datatype pc = Start | Waiting | Locked | Fetching | Storing file_result | Done "error + path"

record task =
  task_contentId :: string
  task_youtubeUrl :: string
  task_metadata :: metadata
  place :: pc
  fetched :: bool

record system =
  shared :: state
  tasks :: "task list"

text \<open>
  What the environment decides at a step: which calls fail, what the download does, and
  whether a waiting task has used up its timeout. The clock is left out of the
  interleaving: a task that polls a held lock either sleeps on (no step) or, when the
  environment says so, times out. The time that the steps read (for the names of
  temporary files, the dates of entries and the age of temporary files) is the clock of
  the shared state, which no step advances.
\<close>

record choice =
  failing :: faults
  exec :: exec_result
  timed_out :: bool

text \<open>
  One step of a task, on the shared state. The steps are the parts of
  \<^verbatim>\<open>downloadAndStore\<close> defined above, the \<^verbatim>\<open>finally\<close> releasing the lock on every way
  out of the locked places. \<open>None\<close>: the task cannot move (it sleeps on a held lock, or
  it is done).
  \<^item> The test of the lock and \<^verbatim>\<open>acquireLock\<close> are one step, as there is no \<^verbatim>\<open>await\<close>
    between them in \<^verbatim>\<open>waitForLock\<close>.
  \<^item> In the source the first test of the lock follows the first check with no \<^verbatim>\<open>await\<close>
    between them. Here they are two steps, so the model has the interleavings of the
    source at this point and others besides.
  \<^item> The first check (the import, the lookup, and the save of an entry whose file is
    missing), the download (the run of \<^verbatim>\<open>yt-dlp\<close> and what follows it) and the commit
    (\<^verbatim>\<open>saveVideo\<close> with its capacity check) have \<^verbatim>\<open>await\<close>s inside; each is taken as one
    step. An undefined title makes \<^verbatim>\<open>downloadYouTubeMP4\<close> throw as it is called; the
    model has the throw in the step of the download.
\<close>

definition finish :: "task \<Rightarrow> error + path \<Rightarrow> task" where
  "finish t r = t\<lparr>place := Done r\<rparr>"

definition task_step :: "config \<Rightarrow> choice \<Rightarrow> state \<Rightarrow> task \<Rightarrow> (state \<times> task) option" where
  "task_step C ch s t =
     (let cid = task_contentId t; F = failing ch in
      case place t of
        Start \<Rightarrow>
          (case firstCheck F s cid of
             (s1, Inl e) \<Rightarrow> Some (s1, finish t (Inl e))
           | (s1, Inr (Some existingPath)) \<Rightarrow> Some (s1, finish t (Inr existingPath))
           | (s1, Inr None) \<Rightarrow> Some (s1, t\<lparr>place := Waiting\<rparr>))
      | Waiting \<Rightarrow>
          if cid \<in> locks s then
            (if timed_out ch then Some (s, finish t (Inl (LockTimeout cid))) else None)
          else
            (case acquireLock s cid of
               (s1, True) \<Rightarrow> Some (s1, t\<lparr>place := Locked\<rparr>)
             | (s1, False) \<Rightarrow> Some (s1, finish t (Inl (LockNotAcquired cid))))
      | Locked \<Rightarrow>
          if F DsFindDoubleCheck
          then Some (releaseLock s cid, finish t (Inl (IoFailure DsFindDoubleCheck)))
          else
            (case findOne (\<lambda>r. contentId r = cid \<and> isActive r) (catalog s) of
               None \<Rightarrow> Some (s, t\<lparr>place := Fetching, fetched := True\<rparr>)
             | Some (i, doubleCheck) \<Rightarrow>
                 if existsSync_opt (files s) (localPath doubleCheck)
                 then Some (releaseLock s cid, finish t (Inr (the (localPath doubleCheck))))
                 else Some (s, t\<lparr>place := Fetching, fetched := True\<rparr>))
      | Fetching \<Rightarrow>
          (case downloadYouTubeMP4 F (exec ch) s (task_youtubeUrl t)
                  (md_title (task_metadata t)) of
             (s1, Inl e) \<Rightarrow> Some (releaseLock s1 cid, finish t (Inl e))
           | (s1, Inr downloadResult) \<Rightarrow> Some (s1, t\<lparr>place := Storing downloadResult\<rparr>))
      | Storing downloadResult \<Rightarrow>
          (case saveVideo F C s cid (path downloadResult) (task_metadata t) of
             (s1, Inl e) \<Rightarrow> Some (releaseLock s1 cid, finish t (Inl e))
           | (s1, Inr result) \<Rightarrow>
               Some (releaseLock (cleanupTempFiles F s1) cid, finish t (Inr (path result))))
      | Done r \<Rightarrow> None)"



text \<open>All invocations have just been called.\<close>

definition initial :: "system \<Rightarrow> bool" where
  "initial \<sigma> = (\<forall>t \<in> set (tasks \<sigma>). place t = Start \<and> \<not> fetched t)"

text \<open>The places in which a task holds the lock of its content id.\<close>

fun holding :: "pc \<Rightarrow> bool" where
  "holding Locked = True"
| "holding Fetching = True"
| "holding (Storing downloadResult) = True"
| "holding other = False"

text \<open>The number of Fetcher invocations made so far for a content id.\<close>

definition fetcher_invocations :: "system \<Rightarrow> string \<Rightarrow> nat" where
  "fetcher_invocations \<sigma> cid =
     length (filter (\<lambda>t. task_contentId t = cid \<and> fetched t) (tasks \<sigma>))"

text \<open>
  A task resumed again and again, at most \<open>n\<close> times, with the same choice of the
  environment and nobody else running: the invocation as a sequential program.
\<close>

fun alone :: "nat \<Rightarrow> config \<Rightarrow> choice \<Rightarrow> state \<Rightarrow> task \<Rightarrow> state \<times> task" where
  "alone 0 C ch s t = (s, t)"
| "alone (Suc n) C ch s t =
     (case task_step C ch s t of None \<Rightarrow> (s, t) | Some (s1, t1) \<Rightarrow> alone n C ch s1 t1)"

subsection \<open>Invariants of the concurrent invocations\<close>

text \<open>
  A task in a locked place has its content id in the lock table, and no two tasks are in
  locked places for the same content id.
\<close>

definition lock_inv :: "system \<Rightarrow> bool" where
  "lock_inv \<sigma> =
     ((\<forall>i < length (tasks \<sigma>). holding (place (tasks \<sigma> ! i)) \<longrightarrow>
          task_contentId (tasks \<sigma> ! i) \<in> locks (shared \<sigma>)) \<and>
      (\<forall>i < length (tasks \<sigma>). \<forall>j < length (tasks \<sigma>).
          holding (place (tasks \<sigma> ! i)) \<and> holding (place (tasks \<sigma> ! j)) \<and>
          task_contentId (tasks \<sigma> ! i) = task_contentId (tasks \<sigma> ! j) \<longrightarrow> i = j))"

text \<open>
  What no step of an invocation changes: the configuration of the store and the clock.
\<close>

definition frame :: "state \<Rightarrow> state \<Rightarrow> bool" where
  "frame s s1 =
     (initialized s1 = initialized s \<and> trailerPath s1 = trailerPath s \<and>
      tempDir s1 = tempDir s \<and> clock s1 = clock s)"

text \<open>
  Every active entry of content id \<open>c\<close> points at the path \<open>fp\<close>.
\<close>

definition cat_ok :: "string \<Rightarrow> path \<Rightarrow> trailer list \<Rightarrow> bool" where
  "cat_ok c fp cat = (\<forall>r \<in> set cat. contentId r = c \<and> isActive r \<longrightarrow> localPath r = Some fp)"

text \<open>
  The store directory is \<open>tp\<close>, the active entries of \<open>c\<close> point at its store path, and
  the invocations for \<open>c\<close> that have returned a path have returned that one.
\<close>

definition paths_inv :: "string \<Rightarrow> path \<Rightarrow> system \<Rightarrow> bool" where
  "paths_inv c tp \<sigma> =
     (trailerPath (shared \<sigma>) = tp \<and>
      cat_ok c (path_join tp (c @ ''.mp4'')) (catalog (shared \<sigma>)) \<and>
      (\<forall>t \<in> set (tasks \<sigma>). task_contentId t = c \<longrightarrow>
         (\<forall>p. place t = Done (Inr p) \<longrightarrow> p = path_join tp (c @ ''.mp4''))))"

text \<open>
  The environment lets a step pass: no call fails, the download writes its \<^verbatim>\<open>.mp4\<close>
  output, and a waiting task is not timed out.
\<close>

definition benign :: "choice \<Rightarrow> bool" where
  "benign ch =
     ((\<forall>c. \<not> failing ch c) \<and> (\<exists>bytes. exec ch = ExecWroteMp4 bytes) \<and> \<not> timed_out ch)"

text \<open>
  An invocation for \<open>c\<close> as the route makes it: a title is given, and a priority that
  \<^verbatim>\<open>metadata.priority || 1\<close> keeps and that is not the evictable priority 1.
\<close>

definition well_called :: "string \<Rightarrow> task \<Rightarrow> bool" where
  "well_called c t =
     (task_contentId t = c \<and> md_title (task_metadata t) \<noteq> None \<and>
      md_priority (task_metadata t) \<noteq> None \<and> md_priority (task_metadata t) \<noteq> Some 0 \<and>
      md_priority (task_metadata t) \<noteq> Some 1)"

text \<open>
  The catalog has no entry for \<open>c\<close>, and no entry points at \<open>fp\<close>.
\<close>

definition uncached :: "string \<Rightarrow> path \<Rightarrow> state \<Rightarrow> bool" where
  "uncached c fp s = (\<forall>r \<in> set (catalog s). contentId r \<noteq> c \<and> localPath r \<noteq> Some fp)"

text \<open>
  The first entry for \<open>c\<close> is active and points at \<open>fp\<close>, and the file is there.
\<close>

definition committed :: "string \<Rightarrow> path \<Rightarrow> state \<Rightarrow> bool" where
  "committed c fp s =
     (\<exists>i < length (catalog s).
        contentId (catalog s ! i) = c \<and> (\<forall>j < i. contentId (catalog s ! j) \<noteq> c) \<and>
        isActive (catalog s ! i) \<and> localPath (catalog s ! i) = Some fp \<and>
        existsSync (files s) fp)"

text \<open>
  Until the first commit: nothing is cached for \<open>c\<close>, no invocation has finished, the
  invocations that have fetched are those fetching or storing, and a storing one has its
  temporary file.
\<close>

definition before_commit :: "string \<Rightarrow> system \<Rightarrow> bool" where
  "before_commit c \<sigma> =
     (uncached c (getVideoPath (shared \<sigma>) c) (shared \<sigma>) \<and>
      (\<forall>i < length (tasks \<sigma>).
         (\<forall>r. place (tasks \<sigma> ! i) \<noteq> Done r) \<and>
         (fetched (tasks \<sigma> ! i) \<longleftrightarrow>
            place (tasks \<sigma> ! i) = Fetching \<or> (\<exists>dr. place (tasks \<sigma> ! i) = Storing dr)) \<and>
         (\<forall>dr. place (tasks \<sigma> ! i) = Storing dr \<longrightarrow> existsSync (files (shared \<sigma>)) (path dr))))"

text \<open>
  From the first commit on: the trailer is cached, one invocation has fetched, none is
  fetching or storing, and those that have finished have returned the store path.
\<close>

definition after_commit :: "string \<Rightarrow> system \<Rightarrow> bool" where
  "after_commit c \<sigma> =
     (committed c (getVideoPath (shared \<sigma>) c) (shared \<sigma>) \<and>
      fetcher_invocations \<sigma> c = 1 \<and>
      (\<forall>i < length (tasks \<sigma>).
         place (tasks \<sigma> ! i) \<noteq> Fetching \<and> (\<forall>dr. place (tasks \<sigma> ! i) \<noteq> Storing dr) \<and>
         (\<forall>r. place (tasks \<sigma> ! i) = Done r \<longrightarrow> r = Inr (getVideoPath (shared \<sigma>) c))))"

text \<open>
  The invariant of the runs in which the environment is benign.
\<close>

definition calm_inv :: "string \<Rightarrow> system \<Rightarrow> bool" where
  "calm_inv c \<sigma> =
     (initialized (shared \<sigma>) \<and> lock_inv \<sigma> \<and> (\<forall>i < length (tasks \<sigma>). well_called c (tasks \<sigma> ! i)) \<and>
      (before_commit c \<sigma> \<or> after_commit c \<sigma>))"

subsection \<open>Example states\<close>

text \<open>
  The catalog of the specification's eviction example (priorities 1, 1, 2; the first and
  the third entry old, the second new), a store that holds the three files, and states
  derived from it; an idle store with an empty catalog, and the state of an acquisition
  that has just committed.
\<close>

definition ex_trailer :: "string \<Rightarrow> int \<Rightarrow> nat \<Rightarrow> trailer" where
  "ex_trailer cid prio accessed =
     \<lparr>contentId = cid, tmdbId = Some (of_nat (digits_value (drop 6 cid))),
      mediaType = ''movie'', title = Some cid,
      localPath = Some (''/hdd/trailers/'' @ cid @ ''.mp4''), fileSizeMB = 1,
      videoQuality = ''1080p'', duration = None, resolution = None,
      accessCount = 0, lastAccessed = accessed, priority = prio,
      isActive = True, createdAt = accessed, updatedAt = accessed\<rparr>"

definition ex_catalog :: "trailer list" where
  "ex_catalog =
     [ex_trailer ''movie_1'' 1 1000, ex_trailer ''movie_2'' 1 5000, ex_trailer ''movie_3'' 2 1000]"


definition ex_file :: stored_file where
  "ex_file = \<lparr>content = [1, 2, 3], mtimeMs = 1000\<rparr>"

definition ex_state :: state where
  "ex_state =
     \<lparr>initialized = True, trailerPath = ''/hdd/trailers'', tempDir = ''./temp-downloads'',
      files = [(''/hdd/trailers/movie_1.mp4'', ex_file), (''/hdd/trailers/movie_2.mp4'', ex_file),
               (''/hdd/trailers/movie_3.mp4'', ex_file)],
      catalog = ex_catalog, locks = {}, clock = 9000\<rparr>"


definition bump_fails :: faults where
  "bump_fails = (\<lambda>c. c = GvSaveAccess)"

definition save_fails :: faults where
  "save_fails = (\<lambda>c. c = SvSave)"



definition ex_metadata :: metadata where
  "ex_metadata =
     \<lparr>md_tmdbId = Some 550, md_mediaType = ''movie'', md_title = Some ''Trailer'',
      md_priority = None\<rparr>"


definition idle_state :: state where
  "idle_state =
     \<lparr>initialized = True, trailerPath = ''/hdd/trailers'', tempDir = ''./temp-downloads'',
      files = [], catalog = [], locks = {}, clock = 100\<rparr>"

definition small_config :: config where
  "small_config = \<lparr>MAX_STORAGE_GB = 1000, MAX_VIDEOS = 1\<rparr>"

definition committed_state :: state where
  "committed_state =
     \<lparr>initialized = True, trailerPath = ''/hdd/trailers'', tempDir = ''./temp-downloads'',
      files = [(''./temp-downloads/Trailer_100.mp4'', \<lparr>content = [1, 2, 3], mtimeMs = 100\<rparr>),
               (''/hdd/trailers/movie_550.mp4'', \<lparr>content = [1, 2, 3], mtimeMs = 100\<rparr>)],
      catalog = [new_TrailerStorage 100 ''movie_550'' ex_metadata ''/hdd/trailers/movie_550.mp4''
                   (mb_of 3)],
      locks = {''movie_550''}, clock = 100\<rparr>"

definition fetch_fails :: exec_result where
  "fetch_fails = ExecRejected None"

text \<open>
  The metadata the route passes: priority 2.
\<close>

definition route_metadata :: metadata where
  "route_metadata =
     \<lparr>md_tmdbId = Some 550, md_mediaType = ''movie'', md_title = Some ''Trailer'',
      md_priority = Some 2\<rparr>"

text \<open>
  Two requests for the same uncached trailer, both just arrived.
\<close>

definition two_calls :: system where
  "two_calls =
     \<lparr>shared = idle_state,
      tasks = replicate 2
        \<lparr>task_contentId = ''movie_550'',
         task_youtubeUrl = ''https://www.youtube.com/watch?v=x'',
         task_metadata = route_metadata, place = Start, fetched = False\<rparr>\<rparr>"

text \<open>
  An environment in which the step passes, and one in which \<^verbatim>\<open>yt-dlp\<close> is rejected.
\<close>

definition env_ok :: choice where
  "env_ok = \<lparr>failing = ok, exec = ExecWroteMp4 [1, 2, 3], timed_out = False\<rparr>"

definition env_fetch_fails :: choice where
  "env_fetch_fails = \<lparr>failing = ok, exec = ExecRejected None, timed_out = False\<rparr>"

definition env_timeout :: choice where
  "env_timeout = \<lparr>failing = ok, exec = ExecWroteMp4 [1, 2, 3], timed_out = True\<rparr>"

text \<open>
  Three schedules. In each the first invocation makes its first check and takes the lock,
  the second makes its first check and finds the lock held, and the first goes on to the
  double check and calls the download. Then: the first invocation runs to its end and the
  second follows; or the download of the first invocation is rejected and the second
  follows; or the download is still running when the second has waited for thirty
  seconds.
\<close>

definition calm_schedule :: "(nat \<times> choice) list" where
  "calm_schedule =
     [(0, env_ok), (0, env_ok), (1, env_ok), (0, env_ok), (0, env_ok), (0, env_ok),
      (1, env_ok), (1, env_ok)]"

definition failing_schedule :: "(nat \<times> choice) list" where
  "failing_schedule =
     [(0, env_ok), (0, env_ok), (1, env_ok), (0, env_ok), (0, env_fetch_fails),
      (1, env_ok), (1, env_ok), (1, env_ok), (1, env_ok)]"

definition timeout_schedule :: "(nat \<times> choice) list" where
  "timeout_schedule =
     [(0, env_ok), (0, env_ok), (1, env_ok), (0, env_ok), (1, env_timeout)]"

text \<open>
  The system after four steps of the first schedule, and the systems at the end of the three
  schedules.
\<close>

definition calm_midway :: system where
  "calm_midway =
     \<lparr>shared = idle_state\<lparr>locks := {''movie_550''}\<rparr>,
      tasks =
        [\<lparr>task_contentId = ''movie_550'',
          task_youtubeUrl = ''https://www.youtube.com/watch?v=x'',
          task_metadata = route_metadata, place = Fetching, fetched = True\<rparr>,
         \<lparr>task_contentId = ''movie_550'',
          task_youtubeUrl = ''https://www.youtube.com/watch?v=x'',
          task_metadata = route_metadata, place = Waiting, fetched = False\<rparr>]\<rparr>"

definition calm_final :: system where
  "calm_final =
     \<lparr>shared =
        idle_state\<lparr>files := [(''./temp-downloads/Trailer_100.mp4'',
                                \<lparr>content = [1, 2, 3], mtimeMs = 100\<rparr>),
                              (''/hdd/trailers/movie_550.mp4'',
                                \<lparr>content = [1, 2, 3], mtimeMs = 100\<rparr>)],
                   catalog := [new_TrailerStorage 100 ''movie_550'' route_metadata
                                 ''/hdd/trailers/movie_550.mp4'' (mb_of 3)]\<rparr>,
      tasks =
        [\<lparr>task_contentId = ''movie_550'',
          task_youtubeUrl = ''https://www.youtube.com/watch?v=x'',
          task_metadata = route_metadata,
          place = Done (Inr ''/hdd/trailers/movie_550.mp4''), fetched = True\<rparr>,
         \<lparr>task_contentId = ''movie_550'',
          task_youtubeUrl = ''https://www.youtube.com/watch?v=x'',
          task_metadata = route_metadata,
          place = Done (Inr ''/hdd/trailers/movie_550.mp4''), fetched = False\<rparr>]\<rparr>"

definition failing_final :: system where
  "failing_final =
     \<lparr>shared =
        idle_state\<lparr>files := [(''./temp-downloads/Trailer_100.mp4'',
                                \<lparr>content = [1, 2, 3], mtimeMs = 100\<rparr>),
                              (''/hdd/trailers/movie_550.mp4'',
                                \<lparr>content = [1, 2, 3], mtimeMs = 100\<rparr>)],
                   catalog := [new_TrailerStorage 100 ''movie_550'' route_metadata
                                 ''/hdd/trailers/movie_550.mp4'' (mb_of 3)]\<rparr>,
      tasks =
        [\<lparr>task_contentId = ''movie_550'',
          task_youtubeUrl = ''https://www.youtube.com/watch?v=x'',
          task_metadata = route_metadata,
          place = Done (Inl ExecFailed), fetched = True\<rparr>,
         \<lparr>task_contentId = ''movie_550'',
          task_youtubeUrl = ''https://www.youtube.com/watch?v=x'',
          task_metadata = route_metadata,
          place = Done (Inr ''/hdd/trailers/movie_550.mp4''), fetched = True\<rparr>]\<rparr>"

definition timeout_final :: system where
  "timeout_final =
     \<lparr>shared = idle_state\<lparr>locks := {''movie_550''}\<rparr>,
      tasks =
        [\<lparr>task_contentId = ''movie_550'',
          task_youtubeUrl = ''https://www.youtube.com/watch?v=x'',
          task_metadata = route_metadata, place = Fetching, fetched = True\<rparr>,
         \<lparr>task_contentId = ''movie_550'',
          task_youtubeUrl = ''https://www.youtube.com/watch?v=x'',
          task_metadata = route_metadata,
          place = Done (Inl (LockTimeout ''movie_550'')), fetched = False\<rparr>]\<rparr>"

section \<open>Properties\<close>

subsection \<open>Number printing and parsing\<close>

lemma below_ten: "d < 10 \<Longrightarrow> d \<in> {0, 1, 2, 3, 4, 5, 6, 7, 8, 9::nat}"
  by auto

lemma is_digit_digit_char: "d < 10 \<Longrightarrow> is_digit (digit_char d)"
  by (drule below_ten) (auto simp: is_digit_def digit_char_def)

lemma digit_val_digit_char: "d < 10 \<Longrightarrow> digit_val (digit_char d) = d"
  by (drule below_ten) (auto simp: digit_val_def digit_char_def)

lemma show_nat_digits: "c \<in> set (show_nat n) \<Longrightarrow> is_digit c"
proof (induction n rule: show_nat.induct)
  case (1 n)
  show ?case
  proof (cases "n < 10")
    case True
    with 1(2) show ?thesis by (subst (asm) show_nat.simps) (simp add: is_digit_digit_char)
  next
    case False
    with 1 show ?thesis by (subst (asm) (2) show_nat.simps) (auto simp: is_digit_digit_char)
  qed
qed

lemma show_nat_nonempty: "show_nat n \<noteq> []"
  by (subst show_nat.simps) simp

lemma digits_value_snoc: "digits_value (ds @ [c]) = 10 * digits_value ds + digit_val c"
  by (simp add: digits_value_def)

lemma digits_value_show_nat: "digits_value (show_nat n) = n"
proof (induction n rule: show_nat.induct)
  case (1 n)
  show ?case
  proof (cases "n < 10")
    case True
    then show ?thesis
      by (subst show_nat.simps) (simp add: digits_value_def digit_val_digit_char)
  next
    case False
    with 1 have "digits_value (show_nat (n div 10)) = n div 10" by simp
    with False show ?thesis
      by (subst show_nat.simps) (simp add: digits_value_snoc digit_val_digit_char)
  qed
qed

lemma not_digit_dash: "\<not> is_digit CHR ''-''"
  by (simp add: is_digit_def)

lemma digit_not_space: "is_digit c \<Longrightarrow> \<not> is_space c"
  by (auto simp: is_digit_def is_space_def)

lemma digit_not_sign: "is_digit c \<Longrightarrow> c \<noteq> CHR ''-'' \<and> c \<noteq> CHR ''+''"
  by (auto simp: is_digit_def)

text \<open>\<^verbatim>\<open>parseInt\<close> reads back a printed natural number.\<close>

lemma parseInt_show_nat: "parseInt (show_nat n) = Some (int n)"
proof -
  obtain c cs where cs: "show_nat n = c # cs"
    using show_nat_nonempty [of n] by (cases "show_nat n") auto
  have all: "\<And>x. x \<in> set (show_nat n) \<Longrightarrow> is_digit x" by (rule show_nat_digits)
  have c: "is_digit c" using all cs by simp
  have dw: "dropWhile is_space (show_nat n) = show_nat n"
    using c cs digit_not_space by simp
  have tw: "takeWhile is_digit (show_nat n) = show_nat n"
    using all by (simp add: takeWhile_eq_all_conv)
  show ?thesis
    using digit_not_sign [OF c] tw show_nat_nonempty [of n] digits_value_show_nat [of n]
    unfolding parseInt_def dw Let_def cs [symmetric]
    by (simp add: cs)
qed

lemma split_acc_no_sep:
  "d \<notin> set xs \<Longrightarrow> split_acc d acc xs = [rev acc @ xs]"
  by (induction xs arbitrary: acc) auto

lemma split_acc_sep:
  "d \<notin> set xs \<Longrightarrow> split_acc d acc (xs @ d # ys) = (rev acc @ xs) # split_acc d [] ys"
  by (induction xs arbitrary: acc) auto

lemma split_on_two:
  "d \<notin> set xs \<Longrightarrow> d \<notin> set ys \<Longrightarrow> split_on d (xs @ d # ys) = [xs, ys]"
  by (simp add: split_on_def split_acc_sep split_acc_no_sep)

lemma replace_first_prefix: "pat \<noteq> [] \<Longrightarrow> replace_first pat [] (pat @ rest) = rest"
  by (cases pat) auto

lemma dash_notin_show_nat: "CHR ''-'' \<notin> set (show_nat n)"
  using show_nat_digits not_digit_dash by blast

lemma show_int_nat: "show_int (int n) = show_nat n"
  by (simp add: show_int_def)

text \<open>
  Claim C2. For a stored file of \<open>S\<close> bytes: a request whose range header is
  \<^verbatim>\<open>bytes=start-end\<close> with \<open>start \<le> end < S\<close> is answered with status 206, the header
  \<^verbatim>\<open>Content-Range: bytes start-end/S\<close>, a declared length of \<open>end - start + 1\<close> and a body
  of exactly that many bytes, the bytes at offsets \<open>start..end\<close> of the file; with the end
  left out (\<^verbatim>\<open>bytes=start-\<close>, \<open>start < S\<close>) the range is \<open>start..S-1\<close>; a request without
  range header is answered with status 200, \<^verbatim>\<open>Content-Length: S\<close> and the whole file.
\<close>

theorem streamVideoFile_range_serving:
  "map_of fs filePath = Some f \<Longrightarrow> S = length (content f) \<Longrightarrow>
   (start \<le> end \<and> end < S \<longrightarrow>
      streamVideoFile fs filePath (Some (''bytes='' @ show_nat start @ ''-'' @ show_nat end)) =
        \<lparr>status = 206,
         headers =
           [(''Content-Range'',
               ''bytes '' @ show_nat start @ ''-'' @ show_nat end @ ''/'' @ show_nat S),
            (''Accept-Ranges'', ''bytes''),
            (''Content-Length'', show_nat (end - start + 1)),
            (''Content-Type'', ''video/mp4'')],
         body = FileStream (take (end - start + 1) (drop start (content f)))\<rparr>
      \<and> length (take (end - start + 1) (drop start (content f))) = end - start + 1
      \<and> (\<forall>i \<le> end - start.
            take (end - start + 1) (drop start (content f)) ! i = content f ! (start + i))) \<and>
   (start < S \<longrightarrow>
      streamVideoFile fs filePath (Some (''bytes='' @ show_nat start @ ''-'')) =
        \<lparr>status = 206,
         headers =
           [(''Content-Range'',
               ''bytes '' @ show_nat start @ ''-'' @ show_nat (S - 1) @ ''/'' @ show_nat S),
            (''Accept-Ranges'', ''bytes''),
            (''Content-Length'', show_nat (S - start)),
            (''Content-Type'', ''video/mp4'')],
         body = FileStream (drop start (content f))\<rparr>) \<and>
   streamVideoFile fs filePath None =
     \<lparr>status = 200,
      headers =
        [(''Content-Length'', show_nat S),
         (''Content-Type'', ''video/mp4''),
         (''Cache-Control'', ''public, max-age=604800'')],
      body = FileStream (content f)\<rparr>"
proof (intro conjI impI)
  assume f: "map_of fs filePath = Some f" and S: "S = length (content f)"
  show "streamVideoFile fs filePath None =
     \<lparr>status = 200,
      headers =
        [(''Content-Length'', show_nat S),
         (''Content-Type'', ''video/mp4''),
         (''Cache-Control'', ''public, max-age=604800'')],
      body = FileStream (content f)\<rparr>"
    by (simp add: streamVideoFile_def f S show_int_nat)
  {
    assume r: "start \<le> end \<and> end < S"
    have parts: "split_on CHR ''-'' (replace_first ''bytes='' [] (''bytes='' @ show_nat start @ ''-'' @ show_nat end))
                 = [show_nat start, show_nat end]"
      using replace_first_prefix [of "''bytes=''" "show_nat start @ ''-'' @ show_nat end"]
        split_on_two [OF dash_notin_show_nat dash_notin_show_nat, of start "end"]
      by simp
    have crs: "createReadStream f (Some (int start)) (Some (int end))
               = Some (take (end - start + 1) (drop start (content f)))"
      using r by (simp add: createReadStream_def nat_diff_distrib' nat_add_distrib)
    have chunk: "js_add (js_sub (Some (int end)) (Some (int start))) (Some 1) = Some (int (end - start + 1))"
      using r by (simp add: js_add_def js_sub_def)
    show "streamVideoFile fs filePath (Some (''bytes='' @ show_nat start @ ''-'' @ show_nat end)) =
        \<lparr>status = 206,
         headers =
           [(''Content-Range'',
               ''bytes '' @ show_nat start @ ''-'' @ show_nat end @ ''/'' @ show_nat S),
            (''Accept-Ranges'', ''bytes''),
            (''Content-Length'', show_nat (end - start + 1)),
            (''Content-Type'', ''video/mp4'')],
         body = FileStream (take (end - start + 1) (drop start (content f)))\<rparr>"
      unfolding streamVideoFile_def f
      apply (simp only: option.case Let_def parts list.sel list.case parseInt_show_nat
            show_nat_nonempty if_True if_False S [symmetric] option.sel)
      apply (simp add: crs chunk show_num_def show_int_nat)
      apply (simp add: show_int_def nat_add_distrib)
      done
    show "length (take (end - start + 1) (drop start (content f))) = end - start + 1"
      using r S by (simp add: min_def) arith
    show "\<forall>i \<le> end - start.
            take (end - start + 1) (drop start (content f)) ! i = content f ! (start + i)"
      using r S by simp
  }
  {
    assume r: "start < S"
    have parts: "split_on CHR ''-'' (replace_first ''bytes='' [] (''bytes='' @ show_nat start @ ''-''))
                 = [show_nat start, []]"
      using replace_first_prefix [of "''bytes=''" "show_nat start @ ''-''"]
        split_on_two [OF dash_notin_show_nat, of "[]" start]
      by simp
    have n: "nat (int S - 1 - int start + 1) = S - start" "int start \<le> int S - 1"
      using r by simp_all
    have crs: "createReadStream f (Some (int start)) (Some (int S - 1))
               = Some (drop start (content f))"
      using r S unfolding createReadStream_def by (simp only: n prod.case option.case) auto
    have chunk: "js_add (js_sub (Some (int S - 1)) (Some (int start))) (Some 1) = Some (int (S - start))"
      using r by (simp add: js_add_def js_sub_def)
    have sm: "int S - 1 = int (S - 1)" using r by simp
    show "streamVideoFile fs filePath (Some (''bytes='' @ show_nat start @ ''-'')) =
        \<lparr>status = 206,
         headers =
           [(''Content-Range'',
               ''bytes '' @ show_nat start @ ''-'' @ show_nat (S - 1) @ ''/'' @ show_nat S),
            (''Accept-Ranges'', ''bytes''),
            (''Content-Length'', show_nat (S - start)),
            (''Content-Type'', ''video/mp4'')],
         body = FileStream (drop start (content f))\<rparr>"
      unfolding streamVideoFile_def f
      apply (simp only: option.case Let_def parts list.sel list.case parseInt_show_nat
            show_nat_nonempty if_True if_False S [symmetric] option.sel)
      apply (simp add: crs chunk show_num_def show_int_nat)
      apply (simp add: sm show_int_nat)
      done
  }
qed

text \<open>
  Claim C9, as amended. When no file exists at the path handed to the stream-serving
  operation, the operation answers with status 500 and the JSON error
  \<^verbatim>\<open>Failed to stream video\<close>, whatever the range header: the \<^verbatim>\<open>Video file not found\<close>
  error it raises is caught by its own catch block, which knows one answer only.
\<close>

theorem streamVideoFile_missing_file:
  "\<not> existsSync fs filePath \<Longrightarrow>
     streamVideoFile fs filePath rangeHdr = stream_error \<and>
     status (streamVideoFile fs filePath rangeHdr) = 500"
  by (simp add: streamVideoFile_def existsSync_def stream_error_def)

theorem streamVideoFile_missing_file_witness:
  "\<not> existsSync [] ''/hdd/trailers/movie_550.mp4'' \<and>
   streamVideoFile [] ''/hdd/trailers/movie_550.mp4'' (Some ''bytes=0-99'') = stream_error \<and>
   status (streamVideoFile [] ''/hdd/trailers/movie_550.mp4'' (Some ''bytes=0-99'')) = 500"
  using streamVideoFile_missing_file [of "[]" "''/hdd/trailers/movie_550.mp4''" "Some ''bytes=0-99''"]
  by (simp add: existsSync_def stream_error_def)

text \<open>
  Claim C9 as stated asks for a not-found response. On an empty store the response is not
  one.
\<close>

theorem streamVideoFile_not_found_counterexample:
  "\<not> not_found_response (streamVideoFile [] ''/hdd/trailers/movie_550.mp4'' None)"
  by (simp add: streamVideoFile_def not_found_response_def stream_error_def)

text \<open>
  The instance of the specification's example: a 1000-byte file whose byte at offset \<open>i\<close>
  is \<open>i mod 256\<close>, asked for \<^verbatim>\<open>bytes=100-199\<close>, for \<^verbatim>\<open>bytes=900-\<close> and without range.
\<close>

theorem streamVideoFile_range_serving_witness:
  "streamVideoFile [(''/hdd/trailers/movie_550.mp4'', demo_file)] ''/hdd/trailers/movie_550.mp4''
      (Some ''bytes=100-199'') =
     \<lparr>status = 206,
      headers =
        [(''Content-Range'', ''bytes 100-199/1000''),
         (''Accept-Ranges'', ''bytes''),
         (''Content-Length'', ''100''),
         (''Content-Type'', ''video/mp4'')],
      body = FileStream (map of_nat [100..<200])\<rparr> \<and>
   length (map of_nat [100..<200] :: byte list) = 100 \<and>
   streamVideoFile [(''/hdd/trailers/movie_550.mp4'', demo_file)] ''/hdd/trailers/movie_550.mp4''
      (Some ''bytes=900-'') =
     \<lparr>status = 206,
      headers =
        [(''Content-Range'', ''bytes 900-999/1000''),
         (''Accept-Ranges'', ''bytes''),
         (''Content-Length'', ''100''),
         (''Content-Type'', ''video/mp4'')],
      body = FileStream (map of_nat [900..<1000])\<rparr> \<and>
   streamVideoFile [(''/hdd/trailers/movie_550.mp4'', demo_file)] ''/hdd/trailers/movie_550.mp4''
      None =
     \<lparr>status = 200,
      headers =
        [(''Content-Length'', ''1000''),
         (''Content-Type'', ''video/mp4''),
         (''Cache-Control'', ''public, max-age=604800'')],
      body = FileStream (map of_nat [0..<1000])\<rparr>"
proof -
  let ?p = "''/hdd/trailers/movie_550.mp4''"
  have f: "map_of [(?p, demo_file)] ?p = Some demo_file" by simp
  have S: "1000 = length (content demo_file)" by (simp add: demo_file_def)
  have sn: "show_nat 100 = ''100''" "show_nat 199 = ''199''" "show_nat 1000 = ''1000''"
    "show_nat 900 = ''900''" "show_nat 999 = ''999''"
    by (simp_all add: show_nat.simps digit_char_def)
  have c1: "take 100 (drop 100 (map of_nat [0..<1000])) = (map of_nat [100..<200] :: byte list)"
    by (simp add: take_map drop_map del: upt_rec_numeral)
  have c2: "drop 900 (map of_nat [0..<1000]) = (map of_nat [900..<1000] :: byte list)"
    by (simp add: drop_map del: upt_rec_numeral)
  from streamVideoFile_range_serving [OF f S, of 100 199]
    streamVideoFile_range_serving [OF f S, of 900 999]
  show ?thesis
    by (simp add: sn c1 c2 demo_file_def del: upt_rec_numeral)
qed

subsection \<open>The catalog queries and the eviction loop\<close>








text \<open>
  The \<^verbatim>\<open>save\<close> of a round is always rejected: the round has set \<^verbatim>\<open>localPath\<close> to
  \<^verbatim>\<open>null\<close>, and the schema requires the path. So a round deletes the file, if there is
  one and \<^verbatim>\<open>unlinkSync\<close> does not throw, and changes nothing else; it is never counted.
\<close>

lemma validate_cleared: "\<not> validate (r\<lparr>isActive := b, localPath := None\<rparr>)"
  by (simp add: validate_def required_string_def)

lemma evict_one_eq:
  "evict_one F d s =
     (if existsSync_opt (files s) (localPath (snd d)) \<and> \<not> F (ClUnlink (fst d))
      then s\<lparr>files := unlinkSync (files s) (the (localPath (snd d)))\<rparr> else s, False)"
  by (simp add: evict_one_def Let_def validate_cleared)

lemma evict_one_catalog: "catalog (fst (evict_one F d s)) = catalog s"
  by (simp add: evict_one_eq)

lemma cleanup_loop_catalog: "catalog (fst (cleanup_loop F ds s n)) = catalog s"
proof (induction ds arbitrary: s n)
  case Nil
  then show ?case by simp
next
  case (Cons d ds)
  from Cons.IH [of "fst (evict_one F d s)" n] show ?case
    by (simp add: evict_one_eq)
qed

lemma cleanup_loop_count: "snd (cleanup_loop F ds s n) = n"
  by (induction ds arbitrary: s n) (simp_all add: evict_one_eq)

lemma cleanup_catalog: "catalog (fst (cleanup F s)) = catalog s"
  by (simp add: cleanup_def cleanup_loop_catalog case_prod_unfold)

lemma cleanup_count: "ensureInitialized s \<Longrightarrow> snd (cleanup F s) = Inr 0"
  by (simp add: cleanup_def cleanup_loop_count case_prod_unfold)

lemma checkAndCleanup_catalog: "catalog (fst (checkAndCleanup F C s)) = catalog s"
  by (simp add: checkAndCleanup_def Let_def cleanup_catalog)


lemma evict_one_files_gone:
  "\<not> existsSync (files s) q \<Longrightarrow> \<not> existsSync (files (fst (evict_one F d s))) q"
  by (simp add: evict_one_eq existsSync_def unlinkSync_def delete_conv')



lemma cleanup_loop_files_gone:
  "\<not> existsSync (files s) q \<Longrightarrow> \<not> existsSync (files (fst (cleanup_loop F ds s n))) q"
proof (induction ds arbitrary: s n)
  case Nil
  then show ?case by simp
next
  case (Cons d ds)
  have "cleanup_loop F (d # ds) s n = cleanup_loop F ds (fst (evict_one F d s)) n"
    by (simp add: evict_one_eq)
  with Cons.IH [OF evict_one_files_gone [OF Cons.prems, of F d], of n]
  show ?case by simp
qed



lemma cleanup_files_gone:
  "\<not> existsSync (files s) q \<Longrightarrow> \<not> existsSync (files (fst (cleanup F s))) q"
  by (simp add: cleanup_def cleanup_loop_files_gone case_prod_unfold)





lemma evict_one_locks: "locks (fst (evict_one F d s)) = locks s"
  by (simp add: evict_one_def Let_def)

lemma cleanup_loop_locks: "locks (fst (cleanup_loop F ds s n)) = locks s"
proof (induction ds arbitrary: s n)
  case Nil
  then show ?case by simp
next
  case (Cons d ds)
  obtain s1 b where e: "evict_one F d s = (s1, b)" by (cases "evict_one F d s")
  then have "locks s1 = locks s" using evict_one_locks [of F d s] by simp
  with e Cons.IH [of s1] show ?case by (cases b) simp_all
qed






subsection \<open>Which entries an eviction run takes\<close>





subsection \<open>Eviction and the lock table\<close>


text \<open>
  A state that an invocation of \<^verbatim>\<open>downloadAndStore\<close> reaches while it holds the lock
  of \<^verbatim>\<open>movie_550\<close>: the lock is taken, the download has written its temporary file, and
  \<^verbatim>\<open>saveVideo\<close> has copied the file and committed the catalog entry. The capacity check
  of \<^verbatim>\<open>saveVideo\<close> runs next, in this state.
\<close>

lemma ex_metadata_valid:
  "validate (new_TrailerStorage now ''movie_550'' ex_metadata ''/hdd/trailers/movie_550.mp4'' mb)"
  by (simp add: validate_def required_string_def new_TrailerStorage_def ex_metadata_def)

lemma committed_state_reached:
  "waitForLock idle_state ''movie_550'' 30000 = (idle_state\<lparr>locks := {''movie_550''}\<rparr>, Inr True) \<and>
   downloadYouTubeMP4 ok (ExecWroteMp4 [1, 2, 3]) (idle_state\<lparr>locks := {''movie_550''}\<rparr>)
       ''https://www.youtube.com/watch?v=x'' (md_title ex_metadata) =
     (idle_state\<lparr>locks := {''movie_550''},
                 files := [(''./temp-downloads/Trailer_100.mp4'',
                            \<lparr>content = [1, 2, 3], mtimeMs = 100\<rparr>)]\<rparr>,
      Inr \<lparr>path = ''./temp-downloads/Trailer_100.mp4'', sizeMB = mb_of 3\<rparr>) \<and>
   saveVideo_try ok
       (idle_state\<lparr>locks := {''movie_550''},
                   files := [(''./temp-downloads/Trailer_100.mp4'',
                              \<lparr>content = [1, 2, 3], mtimeMs = 100\<rparr>)]\<rparr>)
       ''movie_550'' ''./temp-downloads/Trailer_100.mp4'' ex_metadata =
     (committed_state, True, Some ''/hdd/trailers/movie_550.mp4'',
      Inr \<lparr>path = ''/hdd/trailers/movie_550.mp4'', sizeMB = mb_of 3\<rparr>)"
proof (intro conjI)
  show "waitForLock idle_state ''movie_550'' 30000 = (idle_state\<lparr>locks := {''movie_550''}\<rparr>, Inr True)"
    by (simp add: waitForLock_def waitForLock_loop.simps idle_state_def acquireLock_def)
  have sn: "show_nat 100 = ''100''" by (simp add: show_nat.simps digit_char_def)
  have st: "safeTitle ''Trailer'' = ''Trailer''"
    by (simp add: safeTitle_def is_word_def)
  show "downloadYouTubeMP4 ok (ExecWroteMp4 [1, 2, 3]) (idle_state\<lparr>locks := {''movie_550''}\<rparr>)
       ''https://www.youtube.com/watch?v=x'' (md_title ex_metadata) =
     (idle_state\<lparr>locks := {''movie_550''},
                 files := [(''./temp-downloads/Trailer_100.mp4'',
                            \<lparr>content = [1, 2, 3], mtimeMs = 100\<rparr>)]\<rparr>,
      Inr \<lparr>path = ''./temp-downloads/Trailer_100.mp4'', sizeMB = mb_of 3\<rparr>)"
    by (simp add: downloadYouTubeMP4_def ex_metadata_def idle_state_def sn st path_join_def
        writeFile_def existsSync_def ok_def Let_def numeral_3_eq_3)
  show "saveVideo_try ok
       (idle_state\<lparr>locks := {''movie_550''},
                   files := [(''./temp-downloads/Trailer_100.mp4'',
                              \<lparr>content = [1, 2, 3], mtimeMs = 100\<rparr>)]\<rparr>)
       ''movie_550'' ''./temp-downloads/Trailer_100.mp4'' ex_metadata =
     (committed_state, True, Some ''/hdd/trailers/movie_550.mp4'',
      Inr \<lparr>path = ''/hdd/trailers/movie_550.mp4'', sizeMB = mb_of 3\<rparr>)"
    by (simp add: saveVideo_try_def idle_state_def committed_state_def ok_def existsSync_def
        getVideoPath_def path_join_def copyFileSync_def findOne_def Let_def numeral_3_eq_3
        ex_metadata_valid)
qed

lemma committed_facts:
  "ensureInitialized committed_state"
  "eviction_candidates (catalog committed_state) = [(0, catalog committed_state ! 0)]"
  "localPath (catalog committed_state ! 0) = Some ''/hdd/trailers/movie_550.mp4''"
  "contentId (catalog committed_state ! 0) = ''movie_550''"
  "isActive (catalog committed_state ! 0)"
  "''movie_550'' \<in> locks committed_state"
  "existsSync (files committed_state) ''/hdd/trailers/movie_550.mp4''"
  by (simp_all add: committed_state_def new_TrailerStorage_def ex_metadata_def
      ensureInitialized_def eviction_candidates_def cleanup_query_def existsSync_def)



text \<open>
  The same in one invocation: with \<^verbatim>\<open>MAX_VIDEOS\<close> set to 1 and no priority in the
  metadata, \<^verbatim>\<open>downloadAndStore\<close> commits the trailer, the capacity check inside
  \<^verbatim>\<open>saveVideo\<close> deletes its file while the lock is still held, and the invocation
  returns the path of the file that is gone; the entry stays active.
\<close>

lemma downloadAndStore_evicts_own_commit:
  "downloadAndStore ok (ExecWroteMp4 [1, 2, 3]) small_config idle_state ''movie_550''
       ''https://www.youtube.com/watch?v=x'' ex_metadata =
     (idle_state\<lparr>files := [(''./temp-downloads/Trailer_100.mp4'',
                            \<lparr>content = [1, 2, 3], mtimeMs = 100\<rparr>)],
                 catalog := [new_TrailerStorage 100 ''movie_550'' ex_metadata
                               ''/hdd/trailers/movie_550.mp4'' (mb_of 3)]\<rparr>,
      Inr ''/hdd/trailers/movie_550.mp4'')"
proof -
  let ?url = "''https://www.youtube.com/watch?v=x''"
  let ?tmp = "(''./temp-downloads/Trailer_100.mp4'', \<lparr>content = [1, 2, 3], mtimeMs = 100\<rparr>)"
  have first: "firstCheck ok idle_state ''movie_550'' = (idle_state, Inr None)"
    by (simp add: firstCheck_def ok_def idle_state_def findOne_def)
  have dc: "findOne (\<lambda>r. contentId r = ''movie_550'' \<and> isActive r)
              (catalog (idle_state\<lparr>locks := {''movie_550''}\<rparr>)) = None"
    by (simp add: idle_state_def findOne_def)
  have stats: "getStorageStats ok small_config committed_state =
      \<lparr>fileCount = 1, usedGB = 3 / (1024 * 1024 * 1024),
       freeGB = 1000 - 3 / (1024 * 1024 * 1024)\<rparr>"
    by (simp add: getStorageStats_def ok_def committed_state_def readdirSync_def
        List.map_filter_def entry_name_def suffix_to_prefix path_join_def small_config_def Let_def)
  have cl: "cleanup ok committed_state = (committed_state\<lparr>files := [?tmp]\<rparr>, Inr 0)"
    by (simp add: cleanup_def committed_facts evict_one_eq existsSync_opt_def ok_def)
       (simp add: committed_state_def existsSync_def unlinkSync_def)
  have cc: "checkAndCleanup ok small_config committed_state =
      (committed_state\<lparr>files := [?tmp]\<rparr>, Inr ())"
    unfolding checkAndCleanup_def stats cl
    by (simp add: ensureInitialized_def committed_state_def small_config_def)
  have sv: "saveVideo ok small_config
       (idle_state\<lparr>locks := {''movie_550''}, files := [?tmp]\<rparr>)
       ''movie_550'' ''./temp-downloads/Trailer_100.mp4'' ex_metadata =
      (committed_state\<lparr>files := [?tmp]\<rparr>,
       Inr \<lparr>path = ''/hdd/trailers/movie_550.mp4'', sizeMB = mb_of 3\<rparr>)"
    using committed_state_reached
    by (simp add: saveVideo_def cc) (simp add: ensureInitialized_def idle_state_def)
  have ct: "cleanupTempFiles ok (committed_state\<lparr>files := [?tmp]\<rparr>) =
      committed_state\<lparr>files := [?tmp]\<rparr>"
    by (simp add: cleanupTempFiles_def ok_def committed_state_def readdirSync_def
        List.map_filter_def entry_name_def path_join_def)
  have fs: "fetchAndStore ok (ExecWroteMp4 [1, 2, 3]) small_config
        (idle_state\<lparr>locks := {''movie_550''}\<rparr>) ''movie_550'' ?url ex_metadata =
      (committed_state\<lparr>files := [?tmp]\<rparr>, Inr ''/hdd/trailers/movie_550.mp4'')"
    using committed_state_reached by (simp add: fetchAndStore_def sv ct)
  have okf: "\<And>c. \<not> ok c" by (simp add: ok_def)
  have wl: "waitForLock idle_state ''movie_550'' 30000
              = (idle_state\<lparr>locks := {''movie_550''}\<rparr>, Inr True)"
    using committed_state_reached by blast
  have ls: "lockedSection ok (ExecWroteMp4 [1, 2, 3]) small_config
        (idle_state\<lparr>locks := {''movie_550''}\<rparr>) ''movie_550'' ?url ex_metadata =
      (committed_state\<lparr>files := [?tmp]\<rparr>, Inr ''/hdd/trailers/movie_550.mp4'')"
    unfolding lockedSection_def dc by (simp add: okf fs)
  show ?thesis
    by (simp add: downloadAndStore_def first acquisition_def wl ls releaseLock_def)
      (simp add: committed_state_def idle_state_def)
qed

subsection \<open>Reading the cache: \<^verbatim>\<open>getVideoInfo\<close> and the first check\<close>

lemma ex_find_active_1:
  "findOne (\<lambda>r. contentId r = ''movie_1'' \<and> isActive r) ex_catalog = Some (0, ex_trailer ''movie_1'' 1 1000)"
  by (simp add: findOne_def ex_catalog_def ex_trailer_def)


lemma ex_bump_facts:
  "ensureInitialized ex_state"
  "\<not> bump_fails GvFindOne"
  "findOne (\<lambda>r. contentId r = ''movie_1'' \<and> isActive r) (catalog ex_state)
     = Some (0, ex_trailer ''movie_1'' 1 1000)"
  "existsSync_opt (files ex_state) (localPath (ex_trailer ''movie_1'' 1 1000))"
  "bump_fails GvSaveAccess"
  using ex_find_active_1
  by (simp_all add: ensureInitialized_def ex_state_def bump_fails_def existsSync_opt_def
      existsSync_def ex_trailer_def)

lemma ex_bump_read: "snd (getVideoInfo bump_fails ex_state ''movie_1'') = Inr None"
  using ex_bump_facts by (simp add: getVideoInfo_def)

text \<open>
  Claim C8, as amended. On a cache hit (an active entry whose file exists) for which
  persisting the access-stat bump fails, \<^verbatim>\<open>getVideoInfo\<close> catches the failure and
  returns \<^verbatim>\<open>null\<close>: no error reaches the caller, nothing is changed, and the hit is
  reported as a miss.
\<close>

theorem getVideoInfo_bump_failure:
  "ensureInitialized s \<Longrightarrow> \<not> F GvFindOne \<Longrightarrow>
   findOne (\<lambda>r. contentId r = cid \<and> isActive r) (catalog s) = Some (i, r) \<Longrightarrow>
   existsSync_opt (files s) (localPath r) \<Longrightarrow> F GvSaveAccess \<Longrightarrow>
   getVideoInfo F s cid = (s, Inr None)"
  by (simp add: getVideoInfo_def)

theorem getVideoInfo_bump_failure_witness:
  "ensureInitialized ex_state \<and> \<not> bump_fails GvFindOne \<and>
   findOne (\<lambda>r. contentId r = ''movie_1'' \<and> isActive r) (catalog ex_state)
     = Some (0, ex_trailer ''movie_1'' 1 1000) \<and>
   existsSync_opt (files ex_state) (localPath (ex_trailer ''movie_1'' 1 1000)) \<and>
   bump_fails GvSaveAccess \<and>
   getVideoInfo bump_fails ex_state ''movie_1'' = (ex_state, Inr None)"
  using getVideoInfo_bump_failure [OF ex_bump_facts] ex_bump_facts by simp

text \<open>
  Claim C8 as stated has the read return the entry's path when the bump cannot be
  persisted. Here the entry is active and its file exists, the save of the bump fails, and
  the result is \<^verbatim>\<open>null\<close>.
\<close>

theorem getVideoInfo_bump_counterexample:
  "isActive (catalog ex_state ! 0) \<and> contentId (catalog ex_state ! 0) = ''movie_1'' \<and>
   localPath (catalog ex_state ! 0) = Some ''/hdd/trailers/movie_1.mp4'' \<and>
   existsSync (files ex_state) ''/hdd/trailers/movie_1.mp4'' \<and>
   bump_fails GvSaveAccess \<and>
   snd (getVideoInfo bump_fails ex_state ''movie_1'') = Inr None"
  using ex_bump_read
  by (simp add: ex_state_def ex_catalog_def ex_trailer_def existsSync_def bump_fails_def)





subsection \<open>A commit that fails after the copy\<close>

















subsection \<open>The lock of an invocation\<close>

lemma firstCheck_locks: "locks (fst (firstCheck F s cid)) = locks s"
  by (simp add: firstCheck_def split: option.splits prod.splits)

lemma waitForLock_loop_held:
  "cid \<in> locks s \<Longrightarrow>
     locks (fst (waitForLock_loop startTime timeout s cid)) = locks s \<and>
     snd (waitForLock_loop startTime timeout s cid) = Inl (LockTimeout cid)"
proof (induction startTime timeout s cid rule: waitForLock_loop.induct)
  case (1 startTime timeout s cid)
  show ?case
  proof (cases "int (clock s) - int startTime > int timeout")
    case True
    with 1(2) show ?thesis by (subst (1 2) waitForLock_loop.simps) simp
  next
    case False
    with 1 have "locks (fst (waitForLock_loop startTime timeout (s\<lparr>clock := clock s + 1000\<rparr>) cid))
          = locks s \<and>
        snd (waitForLock_loop startTime timeout (s\<lparr>clock := clock s + 1000\<rparr>) cid)
          = Inl (LockTimeout cid)"
      by simp
    with False 1(2) show ?thesis by (subst (1 2) waitForLock_loop.simps) simp
  qed
qed

lemma waitForLock_free:
  "cid \<notin> locks s \<Longrightarrow>
     waitForLock s cid timeout = (s\<lparr>locks := insert cid (locks s)\<rparr>, Inr True)"
  by (simp add: waitForLock_def waitForLock_loop.simps acquireLock_def)

lemma waitForLock_held:
  "cid \<in> locks s \<Longrightarrow>
     locks (fst (waitForLock s cid timeout)) = locks s \<and>
     snd (waitForLock s cid timeout) = Inl (LockTimeout cid)"
  by (simp add: waitForLock_def waitForLock_loop_held)

lemma waitForLock_acquired:
  "waitForLock s cid timeout = (s2, Inr True) \<Longrightarrow>
     cid \<notin> locks s \<and> s2 = s\<lparr>locks := insert cid (locks s)\<rparr>"
  using waitForLock_free [of cid s timeout] waitForLock_held [of cid s timeout]
  by (cases "cid \<in> locks s") auto

lemma downloadYouTubeMP4_locks: "locks (fst (downloadYouTubeMP4 F X s youtubeUrl t)) = locks s"
  by (cases X; cases t)
     (simp_all add: downloadYouTubeMP4_def Let_def split: option.splits)

lemma checkAndCleanup_locks: "locks (fst (checkAndCleanup F C s)) = locks s"
  using cleanup_loop_locks [of F "eviction_candidates (catalog s)" s 0]
  by (simp add: checkAndCleanup_def Let_def cleanup_def case_prod_unfold)

lemma saveVideo_try_locks: "locks (fst (saveVideo_try F s cid tempFilePath md)) = locks s"
  by (simp add: saveVideo_try_def Let_def split: option.splits prod.splits)

lemma saveVideo_locks: "locks (fst (saveVideo F C s cid tempFilePath md)) = locks s"
proof -
  obtain s1 session finalPath r where t: "saveVideo_try F s cid tempFilePath md = (s1, session, finalPath, r)"
    by (cases "saveVideo_try F s cid tempFilePath md") auto
  with saveVideo_try_locks [of F s cid tempFilePath md] have "locks s1 = locks s" by simp
  then show ?thesis
    by (cases r) (simp_all add: saveVideo_def t checkAndCleanup_locks)
qed

lemma cleanupTempFiles_locks: "locks (cleanupTempFiles F s) = locks s"
  by (simp add: cleanupTempFiles_def)

lemma fetchAndStore_locks: "locks (fst (fetchAndStore F X C s cid youtubeUrl md)) = locks s"
proof -
  obtain s1 r1 where d: "downloadYouTubeMP4 F X s youtubeUrl (md_title md) = (s1, r1)"
    by (cases "downloadYouTubeMP4 F X s youtubeUrl (md_title md)")
  with downloadYouTubeMP4_locks [of F X s youtubeUrl "md_title md"] have l1: "locks s1 = locks s"
    by simp
  show ?thesis
  proof (cases r1)
    case (Inl e)
    with d l1 show ?thesis by (simp add: fetchAndStore_def)
  next
    case (Inr downloadResult)
    obtain s2 r2 where sv: "saveVideo F C s1 cid (path downloadResult) md = (s2, r2)"
      by (cases "saveVideo F C s1 cid (path downloadResult) md")
    with saveVideo_locks [of F C s1 cid "path downloadResult" md] l1 have "locks s2 = locks s"
      by simp
    with d Inr sv show ?thesis
      by (cases r2) (simp_all add: fetchAndStore_def cleanupTempFiles_locks)
  qed
qed

lemma lockedSection_locks: "locks (fst (lockedSection F X C s cid youtubeUrl md)) = locks s"
  by (simp add: lockedSection_def fetchAndStore_locks split: option.splits prod.splits)

lemma acquisition_locks: "locks (fst (acquisition F X C s cid youtubeUrl md)) = locks s"
proof (cases "cid \<in> locks s")
  case True
  obtain s2 r where w: "waitForLock s cid 30000 = (s2, r)" by (cases "waitForLock s cid 30000")
  with waitForLock_held [OF True, of 30000] have "locks s2 = locks s" "r = Inl (LockTimeout cid)"
    by simp_all
  with w show ?thesis by (simp add: acquisition_def)
next
  case False
  let ?s2 = "s\<lparr>locks := insert cid (locks s)\<rparr>"
  obtain s3 r where l: "lockedSection F X C ?s2 cid youtubeUrl md = (s3, r)"
    by (cases "lockedSection F X C ?s2 cid youtubeUrl md")
  with lockedSection_locks [of F X C ?s2 cid youtubeUrl md] have "locks s3 = insert cid (locks s)"
    by simp
  with False l show ?thesis
    by (simp add: acquisition_def waitForLock_free releaseLock_def)
qed

lemma downloadAndStore_locks: "locks (fst (downloadAndStore F X C s cid youtubeUrl md)) = locks s"
proof -
  obtain s1 r where f: "firstCheck F s cid = (s1, r)" by (cases "firstCheck F s cid")
  with firstCheck_locks [of F s cid] have "locks s1 = locks s" by simp
  with f show ?thesis
    by (simp add: downloadAndStore_def acquisition_locks split: sum.splits option.splits)
qed

text \<open>
  Claim C7. An invocation of \<^verbatim>\<open>downloadAndStore\<close> that acquires the lock of its
  content id (its first check did not return, and \<^verbatim>\<open>waitForLock\<close> returned true, the
  id now being in the lock table) ends as the locked section ends, by return or by throw,
  with the lock released: the lock table of the final state does not contain the id. This
  holds whichever calls fail and whatever the download does. No invocation changes the
  lock table otherwise.
\<close>

theorem downloadAndStore_releases_lock:
  "(firstCheck F s cid = (s1, Inr None) \<and> waitForLock s1 cid 30000 = (s2, Inr True) \<longrightarrow>
      cid \<in> locks s2 \<and>
      downloadAndStore F X C s cid youtubeUrl md =
        (releaseLock (fst (lockedSection F X C s2 cid youtubeUrl md)) cid,
         snd (lockedSection F X C s2 cid youtubeUrl md)) \<and>
      cid \<notin> locks (fst (downloadAndStore F X C s cid youtubeUrl md))) \<and>
   locks (fst (downloadAndStore F X C s cid youtubeUrl md)) = locks s"
proof (intro conjI impI)
  assume h: "firstCheck F s cid = (s1, Inr None) \<and> waitForLock s1 cid 30000 = (s2, Inr True)"
  then have a: "cid \<notin> locks s1" and s2: "s2 = s1\<lparr>locks := insert cid (locks s1)\<rparr>"
    using waitForLock_acquired by blast+
  show "cid \<in> locks s2" by (simp add: s2)
  show d: "downloadAndStore F X C s cid youtubeUrl md =
        (releaseLock (fst (lockedSection F X C s2 cid youtubeUrl md)) cid,
         snd (lockedSection F X C s2 cid youtubeUrl md))"
    using h by (simp add: downloadAndStore_def acquisition_def case_prod_unfold)
  show "cid \<notin> locks (fst (downloadAndStore F X C s cid youtubeUrl md))"
    by (simp add: d releaseLock_def)
next
  show "locks (fst (downloadAndStore F X C s cid youtubeUrl md)) = locks s"
    by (rule downloadAndStore_locks)
qed

text \<open>
  Two instances in which the lock is acquired and the invocation throws: the download is
  rejected, and the save of the document in the commit fails.
\<close>

theorem downloadAndStore_releases_lock_witness:
  "firstCheck ok idle_state ''movie_550'' = (idle_state, Inr None) \<and>
   waitForLock idle_state ''movie_550'' 30000 = (idle_state\<lparr>locks := {''movie_550''}\<rparr>, Inr True) \<and>
   ''movie_550'' \<in> locks (idle_state\<lparr>locks := {''movie_550''}\<rparr>) \<and>
   snd (downloadAndStore ok fetch_fails default_config idle_state ''movie_550''
          ''https://www.youtube.com/watch?v=x'' ex_metadata) = Inl ExecFailed \<and>
   ''movie_550'' \<notin> locks (fst (downloadAndStore ok fetch_fails default_config idle_state
          ''movie_550'' ''https://www.youtube.com/watch?v=x'' ex_metadata)) \<and>
   snd (downloadAndStore save_fails (ExecWroteMp4 [1, 2, 3]) default_config idle_state
          ''movie_550'' ''https://www.youtube.com/watch?v=x'' ex_metadata)
     = Inl (IoFailure SvSave) \<and>
   ''movie_550'' \<notin> locks (fst (downloadAndStore save_fails (ExecWroteMp4 [1, 2, 3])
          default_config idle_state ''movie_550'' ''https://www.youtube.com/watch?v=x''
          ex_metadata))"
proof -
  let ?url = "''https://www.youtube.com/watch?v=x''"
  let ?L = "idle_state\<lparr>locks := {''movie_550''}\<rparr>"
  have f1: "firstCheck ok idle_state ''movie_550'' = (idle_state, Inr None)"
    by (simp add: firstCheck_def ok_def idle_state_def findOne_def)
  have f2: "firstCheck save_fails idle_state ''movie_550'' = (idle_state, Inr None)"
    by (simp add: firstCheck_def save_fails_def idle_state_def findOne_def)
  have w: "waitForLock idle_state ''movie_550'' 30000 = (?L, Inr True)"
    using waitForLock_free [of "''movie_550''" idle_state 30000] by (simp add: idle_state_def)
  have r1: "snd (lockedSection ok fetch_fails default_config ?L ''movie_550'' ?url ex_metadata)
      = Inl ExecFailed"
    by (simp add: lockedSection_def ok_def idle_state_def findOne_def fetchAndStore_def
        downloadYouTubeMP4_def fetch_fails_def ex_metadata_def existsSync_def Let_def)
  have sn: "show_nat 100 = ''100''" by (simp add: show_nat.simps digit_char_def)
  have st: "safeTitle ''Trailer'' = ''Trailer''"
    by (simp add: safeTitle_def is_word_def)
  have dl: "downloadYouTubeMP4 save_fails (ExecWroteMp4 [1, 2, 3]) ?L ?url (md_title ex_metadata) =
     (idle_state\<lparr>locks := {''movie_550''},
                 files := [(''./temp-downloads/Trailer_100.mp4'',
                            \<lparr>content = [1, 2, 3], mtimeMs = 100\<rparr>)]\<rparr>,
      Inr \<lparr>path = ''./temp-downloads/Trailer_100.mp4'', sizeMB = mb_of 3\<rparr>)"
    by (simp add: downloadYouTubeMP4_def ex_metadata_def idle_state_def sn st path_join_def
        writeFile_def existsSync_def save_fails_def Let_def numeral_3_eq_3)
  have sv: "snd (saveVideo save_fails default_config
       (idle_state\<lparr>locks := {''movie_550''},
                   files := [(''./temp-downloads/Trailer_100.mp4'',
                              \<lparr>content = [1, 2, 3], mtimeMs = 100\<rparr>)]\<rparr>)
       ''movie_550'' ''./temp-downloads/Trailer_100.mp4'' ex_metadata) = Inl (IoFailure SvSave)"
    by (simp add: saveVideo_def saveVideo_try_def ensureInitialized_def idle_state_def
        save_fails_def existsSync_def existsSync_opt_def getVideoPath_def path_join_def
        copyFileSync_def findOne_def Let_def)
  obtain s2 where sv2: "saveVideo save_fails default_config
       (idle_state\<lparr>locks := {''movie_550''},
                   files := [(''./temp-downloads/Trailer_100.mp4'',
                              \<lparr>content = [1, 2, 3], mtimeMs = 100\<rparr>)]\<rparr>)
       ''movie_550'' ''./temp-downloads/Trailer_100.mp4'' ex_metadata = (s2, Inl (IoFailure SvSave))"
    using sv by (metis prod.collapse)
  have fs: "snd (fetchAndStore save_fails (ExecWroteMp4 [1, 2, 3]) default_config ?L ''movie_550''
        ?url ex_metadata) = Inl (IoFailure SvSave)"
    by (simp add: fetchAndStore_def dl sv2)
  have dc: "findOne (\<lambda>r. contentId r = ''movie_550'' \<and> isActive r) (catalog ?L) = None"
    by (simp add: idle_state_def findOne_def)
  have nf: "\<not> save_fails DsFindDoubleCheck" by (simp add: save_fails_def)
  have r2: "snd (lockedSection save_fails (ExecWroteMp4 [1, 2, 3]) default_config ?L ''movie_550''
        ?url ex_metadata) = Inl (IoFailure SvSave)"
    unfolding lockedSection_def dc using nf fs by simp
  from downloadAndStore_releases_lock [of ok idle_state "''movie_550''" idle_state ?L
      fetch_fails default_config ?url ex_metadata]
    downloadAndStore_releases_lock [of save_fails idle_state "''movie_550''" idle_state ?L
      "ExecWroteMp4 [1, 2, 3]" default_config ?url ex_metadata]
  show ?thesis
    using f1 f2 w r1 r2 by (simp add: releaseLock_def)
qed

end
